theory Spec2Isabelle
  imports Main
begin

unbundle bit_operations_syntax

section \<open>The ST-LINK GDB server runner\<close>

text \<open>
  A shallow embedding of \<^verbatim>\<open>scripts/west_commands/runners/stlink_gdbserver.py\<close>.
  Python integers are \<open>int\<close>, Python strings are \<open>string\<close> (ASCII text), \<open>None\<close>-able
  values are \<open>option\<close>s, and every \<^verbatim>\<open>raise\<close> is a value \<open>Inl e\<close> of the result type.
  The host (file system, \<^verbatim>\<open>shutil.which\<close>, \<^verbatim>\<open>platform.system\<close>, the output of
  \<^verbatim>\<open>arm-none-eabi-readelf\<close>, the \<^verbatim>\<open>pathlib\<close> operations) is a record that the
  functions read. Logging is not modelled. The two calls that start processes
  (\<^verbatim>\<open>check_call\<close>, \<^verbatim>\<open>run_server_and_client\<close>) are the value the run returns.
\<close>

subsection \<open>Python strings\<close>

definition is_space :: "char \<Rightarrow> bool" where
  \<comment> \<open>the ASCII characters that \<^verbatim>\<open>str.strip()\<close> removes\<close>
  "is_space c = (c \<in> set [CHR 0x20, CHR 0x09, CHR 0x0A, CHR 0x0B, CHR 0x0C, CHR 0x0D,
                            CHR 0x1C, CHR 0x1D, CHR 0x1E, CHR 0x1F])"

definition strip :: "string \<Rightarrow> string" where
  \<comment> \<open>\<^verbatim>\<open>s.strip()\<close>\<close>
  "strip s = rev (dropWhile is_space (rev (dropWhile is_space s)))"

fun split_char :: "char \<Rightarrow> string \<Rightarrow> string list" where
  \<comment> \<open>\<^verbatim>\<open>s.split(sep)\<close> for a separator of one character: always at least one piece\<close>
  "split_char sep [] = [[]]"
| "split_char sep (c # cs) =
     (if c = sep then [] # split_char sep cs
      else (case split_char sep cs of p # ps \<Rightarrow> (c # p) # ps | [] \<Rightarrow> [[c]]))"

fun contains_str :: "string \<Rightarrow> string \<Rightarrow> bool" where
  \<comment> \<open>\<^verbatim>\<open>sub in s\<close>\<close>
  "contains_str sub [] = (sub = [])"
| "contains_str sub (c # cs) =
     (take (length sub) (c # cs) = sub \<or> contains_str sub cs)"

definition is_digit :: "char \<Rightarrow> bool" where
  "is_digit c = (c \<in> set ''0123456789'')"

definition digit_val :: "char \<Rightarrow> int" where
  "digit_val c = int (of_char c) - 48"

definition int_dec :: "string \<Rightarrow> int" where
  \<comment> \<open>\<^verbatim>\<open>int(s)\<close> on a non-empty string of ASCII digits (what \<^verbatim>\<open>\d+\<close> matched)\<close>
  "int_dec s = foldl (\<lambda>a c. 10 * a + digit_val c) 0 s"

definition digit_char :: "nat \<Rightarrow> char" where
  \<comment> \<open>only read at \<open>d < 10\<close>\<close>
  "digit_char d = ''0123456789'' ! d"

function str_nat :: "nat \<Rightarrow> string" where
  "str_nat n = (if n < 10 then [digit_char n] else str_nat (n div 10) @ [digit_char (n mod 10)])"
  by pat_completeness auto
termination
  by (relation "measure id") auto

declare str_nat.simps [simp del]

definition str_int :: "int \<Rightarrow> string" where
  \<comment> \<open>\<^verbatim>\<open>str(i)\<close> for an \<^verbatim>\<open>int\<close>\<close>
  "str_int i = (if i < 0 then CHR ''-'' # str_nat (nat (- i)) else str_nat (nat i))"

definition str_int_opt :: "int option \<Rightarrow> string" where
  \<comment> \<open>\<^verbatim>\<open>str(x)\<close> for \<^verbatim>\<open>x: int | None\<close>\<close>
  "str_int_opt x = (case x of None \<Rightarrow> ''None'' | Some i \<Rightarrow> str_int i)"

definition truthy :: "string option \<Rightarrow> bool" where
  \<comment> \<open>the truth value of \<^verbatim>\<open>x: str | None\<close>: neither \<^verbatim>\<open>None\<close> nor empty\<close>
  "truthy x = (case x of None \<Rightarrow> False | Some s \<Rightarrow> s \<noteq> [])"

subsection \<open>\<^verbatim>\<open>int(s, 16)\<close>\<close>

definition is_hex :: "char \<Rightarrow> bool" where
  "is_hex c = (c \<in> set ''0123456789abcdefABCDEF'')"

definition hex_val :: "char \<Rightarrow> int" where
  "hex_val c =
     (if is_digit c then int (of_char c) - 48
      else if c \<in> set ''abcdef'' then int (of_char c) - 87
      else int (of_char c) - 55)"

fun no_double_underscore :: "string \<Rightarrow> bool" where
  "no_double_underscore (a # b # cs) =
     (\<not> (a = CHR ''_'' \<and> b = CHR ''_'') \<and> no_double_underscore (b # cs))"
| "no_double_underscore cs = True"

definition hex_body_ok :: "string \<Rightarrow> bool" where
  \<comment> \<open>digits with single underscores between them: not empty, no leading, trailing or
      doubled underscore\<close>
  "hex_body_ok b =
     (b \<noteq> [] \<and> hd b \<noteq> CHR ''_'' \<and> last b \<noteq> CHR ''_''
      \<and> list_all (\<lambda>c. is_hex c \<or> c = CHR ''_'') b \<and> no_double_underscore b)"

definition hex_body_val :: "string \<Rightarrow> int" where
  "hex_body_val b = foldl (\<lambda>a c. 16 * a + hex_val c) 0 (filter (\<lambda>c. c \<noteq> CHR ''_'') b)"

definition py_int16 :: "string \<Rightarrow> int option" where
  \<comment> \<open>\<^verbatim>\<open>int(s, 16)\<close> on a string already stripped of white space; \<open>None\<close> is
      \<^verbatim>\<open>ValueError\<close>. An optional sign, an optional \<^verbatim>\<open>0x\<close>/\<^verbatim>\<open>0X\<close>, one optional
      underscore after that prefix, then the digits.\<close>
  "py_int16 s =
     (let (neg, u) = (case s of
                        c # r \<Rightarrow> if c = CHR ''-'' then (True, r)
                                 else if c = CHR ''+'' then (False, r) else (False, s)
                      | [] \<Rightarrow> (False, s));
          v = (case u of
                 z # x # r \<Rightarrow>
                   if z = CHR ''0'' \<and> (x = CHR ''x'' \<or> x = CHR ''X'')
                   then (case r of
                           y # r' \<Rightarrow> if y = CHR ''_'' then r' else r
                         | [] \<Rightarrow> r)
                   else u
               | _ \<Rightarrow> u)
      in if hex_body_ok v then Some (if neg then - hex_body_val v else hex_body_val v)
         else None)"

subsection \<open>Boot-mode predicates\<close>

definition is_fsbl_mode :: "int \<Rightarrow> bool" where
  \<comment> \<open>\<^verbatim>\<open>_is_fsbl_mode\<close>: \<^verbatim>\<open>(start_address & 0xFFFF0000) == 0x34180000\<close>\<close>
  "is_fsbl_mode start_address = (start_address AND 0xFFFF0000 = 0x34180000)"

definition is_ram_mode :: "int \<Rightarrow> bool" where
  \<comment> \<open>\<^verbatim>\<open>_is_ram_mode\<close>: \<^verbatim>\<open>0x34000000 <= start_address < 0x34180000\<close>\<close>
  "is_ram_mode start_address = (0x34000000 \<le> start_address \<and> start_address < 0x34180000)"

subsection \<open>Errors, the host, the runner\<close>

datatype error =
    AssertionError
  | ValueError string
  | RuntimeError string
  | MissingProgram string

type_synonym path = string
  \<comment> \<open>a \<^verbatim>\<open>pathlib.Path\<close>, represented by its \<^verbatim>\<open>str()\<close>\<close>

record host =
  platform_system :: string                     \<comment> \<open>\<^verbatim>\<open>platform.system()\<close>\<close>
  which :: "string \<Rightarrow> string option"          \<comment> \<open>\<^verbatim>\<open>shutil.which(name)\<close>\<close>
  mk_path :: "string \<Rightarrow> path"                 \<comment> \<open>\<^verbatim>\<open>Path(s)\<close>\<close>
  joinpath :: "path \<Rightarrow> string \<Rightarrow> path"      \<comment> \<open>\<^verbatim>\<open>p / s\<close>\<close>
  parent :: "path \<Rightarrow> path"                    \<comment> \<open>\<^verbatim>\<open>p.parent\<close>\<close>
  path_name :: "path \<Rightarrow> string"               \<comment> \<open>\<^verbatim>\<open>p.name\<close>\<close>
  absolute :: "path \<Rightarrow> path"                  \<comment> \<open>\<^verbatim>\<open>p.absolute()\<close>\<close>
  as_posix :: "path \<Rightarrow> string"                \<comment> \<open>\<^verbatim>\<open>p.as_posix()\<close>\<close>
  is_dir :: "path \<Rightarrow> bool"                    \<comment> \<open>\<^verbatim>\<open>p.is_dir()\<close>\<close>
  iterdir :: "path \<Rightarrow> path list"              \<comment> \<open>\<^verbatim>\<open>p.iterdir()\<close>, in the order it yields\<close>
  path_exists :: "path \<Rightarrow> bool"               \<comment> \<open>\<^verbatim>\<open>p.exists()\<close>\<close>
  readelf :: "string \<Rightarrow> string option"
    \<comment> \<open>the standard output of \<^verbatim>\<open>arm-none-eabi-readelf -h elf\<close>; \<open>None\<close> when
        \<^verbatim>\<open>subprocess.run\<close> raises (tool missing, non-zero exit status)\<close>
  read_lines :: "path \<Rightarrow> string list"
    \<comment> \<open>the lines that iterating over the opened text file yields, each with its newline,
        before the file ends or reading raises; none when it cannot be opened\<close>

record runner_config =
  \<comment> \<open>the fields of \<^verbatim>\<open>RunnerConfig\<close> that the runner reads\<close>
  elf_file :: "string option"
  gdb :: "string option"
  build_dir :: string

record runner =
  cfg :: runner_config
  swd :: bool
  gdb_port :: int
  stlink_serial :: "string option"
  ap_id :: "int option"
  external_loader :: "string option"
  do_external_init :: bool
  two_boot_stage :: bool
  mcuboot_offset :: string

definition STLINK_GDB_SERVER_DEFAULT_PORT :: int where
  "STLINK_GDB_SERVER_DEFAULT_PORT = 61234"

definition init :: "runner_config \<Rightarrow> bool \<Rightarrow> int option \<Rightarrow> string option \<Rightarrow> int \<Rightarrow>
    string option \<Rightarrow> bool \<Rightarrow> bool \<Rightarrow> string option \<Rightarrow> runner" where
  \<comment> \<open>\<^verbatim>\<open>__init__\<close>; the base class's \<^verbatim>\<open>ensure_output('elf')\<close> is outside this file
      and \<^verbatim>\<open>do_attach_debug_debugserver\<close> asserts its effect again\<close>
  "init c swd' ap_id' stlink_serial' gdb_port' external_loader' external_init' two_boot_stage'
        mcuboot_offset' =
     \<lparr> cfg = c, swd = swd', gdb_port = gdb_port', stlink_serial = stlink_serial',
       ap_id = ap_id', external_loader = external_loader', do_external_init = external_init',
       two_boot_stage = two_boot_stage',
       mcuboot_offset = (case mcuboot_offset' of
                           None \<Rightarrow> ''0x08040000''
                         | Some s \<Rightarrow> if s = [] then ''0x08040000'' else s) \<rparr>"

subsection \<open>Locating the toolchain\<close>

definition lower :: "char \<Rightarrow> char" where
  \<comment> \<open>ASCII case folding, for \<^verbatim>\<open>re.IGNORECASE\<close>\<close>
  "lower c =
     (case map_of (zip ''ABCDEFGHIJKLMNOPQRSTUVWXYZ'' ''abcdefghijklmnopqrstuvwxyz'') c of
        Some d \<Rightarrow> d | None \<Rightarrow> c)"

fun try_minor :: "nat \<Rightarrow> string \<Rightarrow> (string \<times> string) option" where
  \<comment> \<open>the tail \<^verbatim>\<open>(\d+).(\d+)\<close> of the pattern on a text that starts with \<open>k\<close> digits
      at least: the first group is greedy and gives digits back one at a time until the
      rest matches; the last group takes every digit it finds\<close>
  "try_minor 0 s = None"
| "try_minor (Suc k) s =
     (case drop (Suc k) s of
        c # r \<Rightarrow>
          if c \<noteq> CHR 0x0A \<and> takeWhile is_digit r \<noteq> []
          then Some (take (Suc k) s, takeWhile is_digit r)
          else try_minor k s
      | [] \<Rightarrow> try_minor k s)"

definition CUBECLT_FLDR_RE_match :: "string \<Rightarrow> (string \<times> string \<times> string) option" where
  \<comment> \<open>\<^verbatim>\<open>re.compile(r"stm32cubeclt_([1-9]).(\d+).(\d+)", re.IGNORECASE).match(name)\<close>:
      the three groups, or \<open>None\<close>. The match is anchored at the start only, and
      \<^verbatim>\<open>.\<close> is any character but a newline.\<close>
  "CUBECLT_FLDR_RE_match name =
     (if map lower (take 13 name) = ''stm32cubeclt_'' then
        (case drop 13 name of
           mj # sep # rest \<Rightarrow>
             if mj \<in> set ''123456789'' \<and> sep \<noteq> CHR 0x0A then
               (case try_minor (length (takeWhile is_digit rest)) rest of
                  Some (mi, rv) \<Rightarrow> Some ([mj], mi, rv)
                | None \<Rightarrow> None)
             else None
         | _ \<Rightarrow> None)
      else None)"

definition ver_num :: "int \<Rightarrow> int \<Rightarrow> int \<Rightarrow> int" where
  \<comment> \<open>\<^verbatim>\<open>ver_num = major * 1000000 + minor * 1000 + revis\<close>\<close>
  "ver_num major minor revis = major * 1000000 + minor * 1000 + revis"

fun installations_of :: "host \<Rightarrow> path list \<Rightarrow> (int \<times> path) list" where
  \<comment> \<open>the loop over \<^verbatim>\<open>tools_folder.iterdir()\<close>\<close>
  "installations_of h [] = []"
| "installations_of h (f # fs) =
     (case CUBECLT_FLDR_RE_match (path_name h f) of
        Some (m1, m2, m3) \<Rightarrow>
          (let major = int_dec m1; minor = int_dec m2; revis = int_dec m3
           in (ver_num major minor revis, f) # installations_of h fs)
      | None \<Rightarrow> installations_of h fs)"

definition sorted_reverse :: "('a \<Rightarrow> int) \<Rightarrow> 'a list \<Rightarrow> 'a list" where
  \<comment> \<open>\<^verbatim>\<open>sorted(xs, key=k, reverse=True)\<close>: descending, and elements with equal keys
      keep their order\<close>
  "sorted_reverse k xs = rev (sort_key k (rev xs))"

definition find_highest_clt_version :: "host \<Rightarrow> path \<Rightarrow> path option" where
  "find_highest_clt_version h tools_folder =
     (if \<not> is_dir h tools_folder then None
      else
        let installations = installations_of h (iterdir h tools_folder)
        in if length installations = 0 then None
           else (case sorted_reverse fst installations of
                   most_recent_install # _ \<Rightarrow> Some (snd most_recent_install)
                 | [] \<Rightarrow> None))"

definition get_stm32cubeclt_paths :: "host \<Rightarrow> error + (path \<times> path)" where
  \<comment> \<open>\<^verbatim>\<open>_get_stm32cubeclt_paths\<close>: the server executable and the programmer's
      \<^verbatim>\<open>bin\<close> folder\<close>
  "get_stm32cubeclt_paths h =
     (let cur_platform = platform_system h;
          gdbserv = which h ''ST-LINK_gdbserver'';
          cubeprg = which h ''STM32_Programmer_CLI''
      in if cur_platform \<in> set [''Linux'', ''Windows''] \<and> truthy gdbserv \<and> truthy cubeprg
         then Inr (mk_path h (the gdbserv), parent h (mk_path h (the cubeprg)))
         else
           (case (if cur_platform = ''Linux'' then Some (''/opt/st/'', [])
                  else if cur_platform = ''Windows''
                    then Some (''C:'' @ [CHR 0x5C] @ ''ST'' @ [CHR 0x5C], ''.exe'')
                  else if cur_platform = ''Darwin'' then Some (''/opt/ST/'', [])
                  else None) of
              None \<Rightarrow> Inl (RuntimeError ''Unsupported OS'')
            | Some (search_path, tool_suffix) \<Rightarrow>
                (case find_highest_clt_version h (mk_path h search_path) of
                   None \<Rightarrow> Inl (MissingProgram ''ST-LINK_gdbserver (from STM32CubeCLT)'')
                 | Some clt \<Rightarrow>
                     Inr (joinpath h (joinpath h (joinpath h clt ''STLink-gdb-server'') ''bin'')
                            (''ST-LINK_gdbserver'' @ tool_suffix),
                          joinpath h (joinpath h clt ''STM32CubeProgrammer'') ''bin''))))"

subsection \<open>The entry point, the SoC family and the bootloader image\<close>

fun scan_entry_point :: "string list \<Rightarrow> int" where
  \<comment> \<open>the loop over the lines of the output: the first line with the marker decides;
      an \<^verbatim>\<open>IndexError\<close> or \<^verbatim>\<open>ValueError\<close> there is caught and gives 0\<close>
  "scan_entry_point [] = 0"
| "scan_entry_point (line # rest) =
     (if contains_str ''Entry point address'' line then
        (case split_char (CHR '':'') line of
           _ # addr_str # _ \<Rightarrow>
             (case py_int16 (strip addr_str) of Some v \<Rightarrow> v | None \<Rightarrow> 0)
         | _ \<Rightarrow> 0)
      else scan_entry_point rest)"

definition get_start_address :: "host \<Rightarrow> runner \<Rightarrow> int" where
  \<comment> \<open>\<^verbatim>\<open>_get_start_address\<close>\<close>
  "get_start_address h self =
     (case elf_file (cfg self) of
        None \<Rightarrow> 0
      | Some elf \<Rightarrow>
          (case readelf h elf of
             None \<Rightarrow> 0
           | Some stdout \<Rightarrow> scan_entry_point (split_char (CHR 0x0A) stdout)))"

fun replace_from :: "string \<Rightarrow> string \<Rightarrow> nat \<Rightarrow> string \<Rightarrow> string" where
  \<comment> \<open>the scan of \<^verbatim>\<open>s.replace(old, new)\<close> from the left; the number counts the characters
      of a replaced occurrence still to skip\<close>
  "replace_from old new k [] = []"
| "replace_from old new (Suc k) (c # cs) = replace_from old new k cs"
| "replace_from old new 0 (c # cs) =
     (if take (length old) (c # cs) = old
      then new @ replace_from old new (length old - 1) cs
      else c # replace_from old new 0 cs)"

definition replace :: "string \<Rightarrow> string \<Rightarrow> string \<Rightarrow> string" where
  \<comment> \<open>\<^verbatim>\<open>s.replace(old, new)\<close> for a non-empty \<^verbatim>\<open>old\<close>: every occurrence, left to right,
      without overlaps\<close>
  "replace old new s = replace_from old new 0 s"

fun scan_soc_series :: "string list \<Rightarrow> string" where
  \<comment> \<open>the loop over the lines of the build configuration: the first line that starts
      with the marker and contains \<^verbatim>\<open>=y\<close> decides. Reaching the end and a read that
      raises both give \<^verbatim>\<open>unknown\<close>.\<close>
  "scan_soc_series [] = ''unknown''"
| "scan_soc_series (line # rest) =
     (if take (length ''CONFIG_SOC_SERIES_STM32'') line = ''CONFIG_SOC_SERIES_STM32''
         \<and> contains_str ''=y'' line
      then
        (case split_char (CHR ''='') line of
           first # _ \<Rightarrow>
             let soc_series = strip (replace ''CONFIG_SOC_SERIES_'' [] first)
             in take 7 soc_series
         | [] \<Rightarrow> ''unknown'')
      else scan_soc_series rest)"

definition get_stm32_soc :: "host \<Rightarrow> runner \<Rightarrow> string" where
  \<comment> \<open>\<^verbatim>\<open>_get_stm32_soc\<close>\<close>
  "get_stm32_soc h self =
     (let config_file =
            joinpath h (joinpath h (mk_path h (build_dir (cfg self))) ''zephyr'') ''.config''
      in if \<not> path_exists h config_file then ''unknown''
         else scan_soc_series (read_lines h config_file))"

definition find_mcuboot_elf :: "host \<Rightarrow> runner \<Rightarrow> error + string" where
  \<comment> \<open>\<^verbatim>\<open>_find_mcuboot_elf\<close>\<close>
  "find_mcuboot_elf h self =
     (let mcuboot_elf =
            joinpath h (joinpath h (joinpath h (mk_path h (build_dir (cfg self)))
              ''mcuboot'') ''zephyr'') ''zephyr.elf''
      in if path_exists h mcuboot_elf then Inr (as_posix h mcuboot_elf)
         else
           let mcuboot_elf_alt =
                 joinpath h (joinpath h (joinpath h (parent h (mk_path h (build_dir (cfg self))))
                   ''mcuboot'') ''zephyr'') ''zephyr.elf''
           in if path_exists h mcuboot_elf_alt then Inr (as_posix h mcuboot_elf_alt)
              else Inl (RuntimeError
                (''MCUboot ELF not found. For --flash mode with sysbuild, '' @
                 ''MCUboot must be built (use --sysbuild flag)'')))"

subsection \<open>Building the two command lines\<close>

text \<open>
  \<^verbatim>\<open>do_attach_debug_debugserver\<close> is one function in the source. It is written here in
  the stages it runs through, each named by its source lines, and composed below.
\<close>

definition server_base_cmd :: "host \<Rightarrow> runner \<Rightarrow> path \<Rightarrow> path \<Rightarrow> string list" where
  \<comment> \<open>source lines 317 to 324: the arguments every server command line starts with\<close>
  "server_base_cmd h self gdbserver_path cubeprg_path =
     (let gdbserver_cmd = [as_posix h gdbserver_path];
          gdbserver_cmd = gdbserver_cmd @
            [''--stm32cubeprogrammer-path'', absolute h cubeprg_path];
          gdbserver_cmd = gdbserver_cmd @ [''--port-number'', str_int (gdb_port self)];
          gdbserver_cmd = gdbserver_cmd @ [''--apid'', str_int_opt (ap_id self)];
          gdbserver_cmd = gdbserver_cmd @ [''--halt'']
      in if swd self then gdbserver_cmd @ [''--swd''] else gdbserver_cmd)"

definition boot_stage_cmds ::
  "host \<Rightarrow> runner \<Rightarrow> string \<Rightarrow> bool \<Rightarrow> bool \<Rightarrow> string \<Rightarrow> string \<Rightarrow> string list \<Rightarrow>
     string list \<Rightarrow> error + (string list \<times> string list)" where
  \<comment> \<open>source lines 326 to 357: the branch on the command, the two flags and the SoC\<close>
  "boot_stage_cmds h self command is_fsbl is_ram soc elf_path gdbserver_cmd gdb_args =
     (if command = ''attach'' then Inr (gdbserver_cmd @ [''--attach''], gdb_args)
      else if \<not> is_fsbl \<and> \<not> is_ram \<and> soc = ''STM32N6'' then
        (case find_mcuboot_elf h self of
           Inl e \<Rightarrow> Inl e
         | Inr mcuboot_elf \<Rightarrow>
             Inr (gdbserver_cmd @ [''--attach''],
                  [''-ex'', ''target remote :'' @ str_int (gdb_port self),
                   ''-ex'', ''load'',
                   ''-ex'', ''hbreak boot_go'',
                   ''-ex'', ''continue'',
                   ''-ex'', ''set confirm off'',
                   ''-ex'', ''add-symbol-file '' @ elf_path,
                   ''-ex'', ''set confirm on'',
                   ''-ex'', ''break main'',
                   ''-ex'', ''continue'',
                   mcuboot_elf]))
      else Inr (gdbserver_cmd @ [''--initialize-reset''],
                gdb_args @ [''-ex'', ''load '' @ elf_path]))"

definition serial_and_loader :: "host \<Rightarrow> runner \<Rightarrow> path \<Rightarrow> string list \<Rightarrow> error + string list" where
  \<comment> \<open>source lines 359 to 369: the probe's serial number and the external loader\<close>
  "serial_and_loader h self cubeprg_path gdbserver_cmd =
     (let gdbserver_cmd =
            (if truthy (stlink_serial self)
             then gdbserver_cmd @ [''--serial-number'', the (stlink_serial self)]
             else gdbserver_cmd)
      in if truthy (external_loader self) then
           let extldr_path =
                 joinpath h (joinpath h cubeprg_path ''ExternalLoader'')
                   (the (external_loader self))
           in if \<not> path_exists h extldr_path
              then Inl (RuntimeError (''External loader '' @ the (external_loader self) @
                     '' does not exist''))
              else
                let gdbserver_cmd =
                      (if do_external_init self then gdbserver_cmd @ [''--external-init'']
                       else gdbserver_cmd)
                in Inr (gdbserver_cmd @ [''--extload'', extldr_path])
         else Inr gdbserver_cmd)"

definition build_commands :: "host \<Rightarrow> runner \<Rightarrow> string \<Rightarrow> error + (string list \<times> string list)" where
  \<comment> \<open>source lines 303 to 369: the value is \<^verbatim>\<open>(gdbserver_cmd, gdb_args)\<close>\<close>
  "build_commands h self command =
     (case elf_file (cfg self) of
        None \<Rightarrow> Inl AssertionError
      | Some elf \<Rightarrow>
          let elf_path = as_posix h (mk_path h elf);
              soc = get_stm32_soc h self;
              start_address = get_start_address h self;
              is_fsbl = is_fsbl_mode start_address;
              is_ram = is_ram_mode start_address;
              gdb_args = [''-ex'', ''target remote :'' @ str_int (gdb_port self), elf_path]
          in
          (case get_stm32cubeclt_paths h of
             Inl e \<Rightarrow> Inl e
           | Inr (gdbserver_path, cubeprg_path) \<Rightarrow>
               (case boot_stage_cmds h self command is_fsbl is_ram soc elf_path
                       (server_base_cmd h self gdbserver_path cubeprg_path) gdb_args of
                  Inl e \<Rightarrow> Inl e
                | Inr (gdbserver_cmd, gdb_args) \<Rightarrow>
                    (case serial_and_loader h self cubeprg_path gdbserver_cmd of
                       Inl e \<Rightarrow> Inl e
                     | Inr gdbserver_cmd \<Rightarrow> Inr (gdbserver_cmd, gdb_args)))))"

datatype spawned =
    CheckCall "string list"
    \<comment> \<open>\<^verbatim>\<open>self.check_call(cmd)\<close>: one process\<close>
  | RunServerAndClient "string list" "string list"
    \<comment> \<open>\<^verbatim>\<open>self.run_server_and_client(server, client)\<close>: two processes\<close>

definition require :: "host \<Rightarrow> string \<Rightarrow> error + string" where
  \<comment> \<open>Modelled from the spec: \<^verbatim>\<open>ZephyrBinaryRunner.require\<close> of \<^verbatim>\<open>runners.core\<close> is
      not in this file; the session fails with the missing-tool error before anything is
      spawned when the executable cannot be located.\<close>
  "require h program =
     (case which h program of
        None \<Rightarrow> Inl (MissingProgram program)
      | Some found \<Rightarrow> Inr found)"

definition do_attach_debug_debugserver :: "host \<Rightarrow> runner \<Rightarrow> string \<Rightarrow> error + spawned" where
  \<comment> \<open>the whole function: the command lines, then source lines 371 to 380. Both lists
      have a first element where \<^verbatim>\<open>[0]\<close> reads them (lemma \<open>build_commands_nonempty\<close>
      for the server's)\<close>
  "do_attach_debug_debugserver h self command =
     (case build_commands h self command of
        Inl e \<Rightarrow> Inl e
      | Inr (gdbserver_cmd, gdb_args) \<Rightarrow>
          (case require h (hd gdbserver_cmd) of
             Inl e \<Rightarrow> Inl e
           | Inr _ \<Rightarrow>
               if command = ''debugserver'' then Inr (CheckCall gdbserver_cmd)
               else
                 (case gdb (cfg self) of
                    None \<Rightarrow> Inl (RuntimeError ''GDB is required for attach/debug'')
                  | Some gdb_exe \<Rightarrow>
                      let gdb_cmd = [gdb_exe] @ gdb_args
                      in (case require h (hd gdb_cmd) of
                            Inl e \<Rightarrow> Inl e
                          | Inr _ \<Rightarrow> Inr (RunServerAndClient gdbserver_cmd gdb_cmd)))))"

definition do_run :: "host \<Rightarrow> runner \<Rightarrow> string \<Rightarrow> error + spawned" where
  "do_run h self command =
     (if command \<in> set [''attach'', ''debug'', ''debugserver'']
      then do_attach_debug_debugserver h self command
      else Inl (ValueError (command @ '' not supported'')))"

subsection \<open>The modes of the specification, and how a command line is read\<close>

datatype execution_mode = FSBL | RAM | FlashChained | Unknown

definition spec_classify :: "int \<Rightarrow> string \<Rightarrow> execution_mode" where
  \<comment> \<open>the classification as the specification words it (the runner itself has no such
      function: it computes two flags and branches on them); the theorems compare it
      with \<open>is_fsbl_mode\<close>, \<open>is_ram_mode\<close> and the branch \<open>build_commands\<close> takes\<close>
  "spec_classify entryPointAddress socFamily =
     (if entryPointAddress AND 0xFFFF0000 = 0x34180000 then FSBL
      else if 0x34000000 \<le> entryPointAddress \<and> entryPointAddress < 0x34180000 then RAM
      else if socFamily = ''STM32N6'' then FlashChained
      else Unknown)"

fun option_names :: "string list \<Rightarrow> string list" where
  \<comment> \<open>the option names in a list of server arguments: an option that takes a value is
      followed by that value, which is not a flag whatever it looks like\<close>
  "option_names (a # v # rest) =
     (if a \<in> set [''--stm32cubeprogrammer-path'', ''--port-number'', ''--apid'',
                   ''--serial-number'', ''--extload'']
      then a # option_names rest
      else a # option_names (v # rest))"
| "option_names rest = rest"

definition server_flags :: "string list \<Rightarrow> string list" where
  \<comment> \<open>the flags of a server command line: the option names after the executable\<close>
  "server_flags gdbserver_cmd = option_names (tl gdbserver_cmd)"

fun ex_commands :: "string list \<Rightarrow> string list" where
  \<comment> \<open>the debugger commands of a client argument list: what follows each \<^verbatim>\<open>-ex\<close>\<close>
  "ex_commands (a # c # rest) =
     (if a = ''-ex'' then c # ex_commands rest else ex_commands (c # rest))"
| "ex_commands rest = []"

definition server_cmd_of :: "error + spawned \<Rightarrow> string list" where
  "server_cmd_of r =
     (case r of Inr (CheckCall s) \<Rightarrow> s | Inr (RunServerAndClient s c) \<Rightarrow> s | Inl e \<Rightarrow> [])"

definition client_cmd_of :: "error + spawned \<Rightarrow> string list" where
  "client_cmd_of r =
     (case r of Inr (RunServerAndClient s c) \<Rightarrow> c | Inr (CheckCall s) \<Rightarrow> [] | Inl e \<Rightarrow> [])"

definition entry_point_unreadable :: "host \<Rightarrow> runner \<Rightarrow> bool" where
  \<comment> \<open>the entry point cannot be read, said of what the host holds: there is no ELF file,
      the tool fails, its report has no entry-point line, or the first such line has no
      text after a colon that is a hexadecimal number\<close>
  "entry_point_unreadable h self =
     (case elf_file (cfg self) of
        None \<Rightarrow> True
      | Some elf \<Rightarrow>
          (case readelf h elf of
             None \<Rightarrow> True
           | Some out \<Rightarrow>
               (case find (contains_str ''Entry point address'') (split_char (CHR 0x0A) out) of
                  None \<Rightarrow> True
                | Some line \<Rightarrow>
                    (case split_char (CHR '':'') line of
                       _ # addr_str # _ \<Rightarrow> py_int16 (strip addr_str) = None
                     | _ \<Rightarrow> True))))"

definition ver_less :: "int \<times> int \<times> int \<Rightarrow> int \<times> int \<times> int \<Rightarrow> bool" where
  \<comment> \<open>the order of versions: triples compared component by component, major first\<close>
  "ver_less v w =
     (case (v, w) of
        ((a, b, c), (a', b', c')) \<Rightarrow> a < a' \<or> (a = a' \<and> (b < b' \<or> (b = b' \<and> c < c'))))"

subsection \<open>Sample hosts and runners\<close>

definition posix_join :: "path \<Rightarrow> string \<Rightarrow> path" where
  "posix_join p s = p @ ''/'' @ s"

definition posix_parent :: "path \<Rightarrow> path" where
  "posix_parent p = rev (tl (dropWhile (\<lambda>c. c \<noteq> CHR ''/'') (rev p)))"

definition posix_name :: "path \<Rightarrow> string" where
  "posix_name p = rev (takeWhile (\<lambda>c. c \<noteq> CHR ''/'') (rev p))"

definition posix_path :: "string \<Rightarrow> path" where
  "posix_path s = (if 1 < length s \<and> last s = CHR ''/'' then butlast s else s)"

definition linux_host :: host where
  \<comment> \<open>a Linux host with both tools and the debugger on the search path, no files in the
      build folder (no configuration, no bootloader image), and no readable entry point\<close>
  "linux_host =
     \<lparr> platform_system = ''Linux'',
       which = map_of
         [(''ST-LINK_gdbserver'', ''/opt/st/clt/STLink-gdb-server/bin/ST-LINK_gdbserver''),
          (''STM32_Programmer_CLI'', ''/opt/st/clt/STM32CubeProgrammer/bin/STM32_Programmer_CLI''),
          (''/opt/st/clt/STLink-gdb-server/bin/ST-LINK_gdbserver'',
           ''/opt/st/clt/STLink-gdb-server/bin/ST-LINK_gdbserver''),
          (''/usr/bin/gdb'', ''/usr/bin/gdb'')],
       mk_path = posix_path,
       joinpath = posix_join,
       parent = posix_parent,
       path_name = posix_name,
       absolute = (\<lambda>p. p),
       as_posix = (\<lambda>p. p),
       is_dir = (\<lambda>p. False),
       iterdir = (\<lambda>p. []),
       path_exists = (\<lambda>p. False),
       readelf = (\<lambda>elf. None),
       read_lines = (\<lambda>p. []) \<rparr>"

definition readelf_output :: "string \<Rightarrow> string" where
  \<comment> \<open>two lines of a \<^verbatim>\<open>readelf -h\<close> report, the second with the given address\<close>
  "readelf_output addr =
     ''  Machine:                           ARM'' @ [CHR 0x0A] @
     ''  Entry point address:               '' @ addr @ [CHR 0x0A]"

definition sample_runner :: runner where
  "sample_runner =
     init \<lparr> elf_file = Some ''/work/build/zephyr/zephyr.elf'', gdb = Some ''/usr/bin/gdb'',
            build_dir = ''/work/build'' \<rparr>
          True (Some 0) None STLINK_GDB_SERVER_DEFAULT_PORT None False False None"

definition scan_host :: "path list \<Rightarrow> host" where
  \<comment> \<open>a Linux host without the tools on the search path, with the given folders under
      \<^verbatim>\<open>/opt/st\<close>\<close>
  "scan_host folders =
     linux_host \<lparr> which := (\<lambda>name. None),
                  is_dir := (\<lambda>p. p = ''/opt/st''),
                  iterdir := (\<lambda>p. if p = ''/opt/st'' then folders else []) \<rparr>"

definition fsbl_host :: host where
  \<comment> \<open>the binary starts in the first-stage bootloader window\<close>
  "fsbl_host = linux_host \<lparr> readelf := (\<lambda>elf. Some (readelf_output ''0x34185000'')) \<rparr>"

definition garbled_host :: host where
  \<comment> \<open>the report has an entry-point line whose address is not a number\<close>
  "garbled_host = linux_host \<lparr> readelf := (\<lambda>elf. Some (readelf_output ''not available'')) \<rparr>"

definition nocolon_host :: host where
  \<comment> \<open>the report has an entry-point line without a colon\<close>
  "nocolon_host =
     linux_host \<lparr> readelf := (\<lambda>elf. Some (''Entry point address 0x34180749'' @ [CHR 0x0A])) \<rparr>"

definition n6_config :: "string list" where
  \<comment> \<open>lines of the build configuration of an STM32N6 board\<close>
  "n6_config =
     [''CONFIG_ARM=y'' @ [CHR 0x0A],
      ''CONFIG_SOC_SERIES_STM32N6X=y'' @ [CHR 0x0A],
      ''CONFIG_SOC_STM32N657XX=y'' @ [CHR 0x0A]]"

definition chained_host :: host where
  \<comment> \<open>an STM32N6 build whose binary starts in external flash, with the bootloader image
      in the build folder\<close>
  "chained_host =
     linux_host \<lparr> readelf := (\<lambda>elf. Some (readelf_output ''0x08040000'')),
                  path_exists := (\<lambda>p. p \<in> set [''/work/build/zephyr/.config'',
                                                ''/work/build/mcuboot/zephyr/zephyr.elf'']),
                  read_lines := (\<lambda>p. if p = ''/work/build/zephyr/.config'' then n6_config
                                      else []) \<rparr>"

definition n6_host :: host where
  \<comment> \<open>an STM32N6 build without a readable entry point and without a bootloader image\<close>
  "n6_host =
     linux_host \<lparr> path_exists := (\<lambda>p. p = ''/work/build/zephyr/.config''),
                  read_lines := (\<lambda>p. if p = ''/work/build/zephyr/.config'' then n6_config
                                      else []) \<rparr>"

definition loader_runner :: runner where
  \<comment> \<open>the sample runner with an external loader configured\<close>
  "loader_runner = sample_runner \<lparr> external_loader := Some ''MX66.stldr'' \<rparr>"

definition jtag_runner :: runner where
  \<comment> \<open>the sample runner started with \<^verbatim>\<open>--no-swd\<close>\<close>
  "jtag_runner = sample_runner \<lparr> swd := False \<rparr>"

section \<open>Lemmas\<close>

subsection \<open>The address windows\<close>

lemma and_mask_hi16: "(a::int) AND 0xFFFF0000 = (a div 65536 mod 65536) * 65536"
proof -
  have m: "(0xFFFF0000::int) = push_bit 16 (mask 16)"
    by (simp add: push_bit_eq_mult mask_eq_exp_minus_1)
  have "a AND push_bit 16 (mask 16) = push_bit 16 (take_bit 16 (drop_bit 16 a))"
    by (rule bit_eqI) (auto simp: bit_simps)
  then show ?thesis
    unfolding m by (simp add: push_bit_eq_mult take_bit_eq_mod drop_bit_eq_div)
qed

lemma is_fsbl_mode_iff: "is_fsbl_mode a \<longleftrightarrow> a div 65536 mod 65536 = 0x3418"
  by (simp add: is_fsbl_mode_def and_mask_hi16)

lemma fsbl_window: "0x34180000 \<le> a \<Longrightarrow> a \<le> 0x3418FFFF \<Longrightarrow> is_fsbl_mode a"
  by (simp add: is_fsbl_mode_iff)

lemma ram_not_fsbl: "is_ram_mode a \<Longrightarrow> \<not> is_fsbl_mode a"
proof -
  assume r: "is_ram_mode a"
  have "0x34000000 \<le> a" "a < 0x34180000"
    using r by (simp_all add: is_ram_mode_def)
  then have "0x3400 \<le> a div 65536" "a div 65536 < 0x3418"
    by linarith+
  then have "a div 65536 mod 65536 = a div 65536" "a div 65536 \<noteq> 0x3418" by simp_all
  then show ?thesis by (simp add: is_fsbl_mode_iff)
qed

lemma spec_classify_code:
  "spec_classify a soc =
     (if is_fsbl_mode a then FSBL else if is_ram_mode a then RAM
      else if soc = ''STM32N6'' then FlashChained else Unknown)"
  by (simp add: spec_classify_def is_fsbl_mode_def is_ram_mode_def)

subsection \<open>The stages of the command lines\<close>

lemma boot_stage_cmds_attach:
  "boot_stage_cmds h self ''attach'' f r soc elf_path srv gargs = Inr (srv @ [''--attach''], gargs)"
  by (simp add: boot_stage_cmds_def)

lemma boot_stage_cmds_chained:
  assumes "command \<noteq> ''attach''" "\<not> f" "\<not> r" "soc = ''STM32N6''"
  shows "boot_stage_cmds h self command f r soc elf_path srv gargs =
     (case find_mcuboot_elf h self of
        Inl e \<Rightarrow> Inl e
      | Inr mcuboot_elf \<Rightarrow>
          Inr (srv @ [''--attach''],
               [''-ex'', ''target remote :'' @ str_int (gdb_port self),
                ''-ex'', ''load'',
                ''-ex'', ''hbreak boot_go'',
                ''-ex'', ''continue'',
                ''-ex'', ''set confirm off'',
                ''-ex'', ''add-symbol-file '' @ elf_path,
                ''-ex'', ''set confirm on'',
                ''-ex'', ''break main'',
                ''-ex'', ''continue'',
                mcuboot_elf]))"
  using assms by (simp add: boot_stage_cmds_def)

lemma boot_stage_cmds_reset:
  assumes "command \<noteq> ''attach''" "f \<or> r \<or> soc \<noteq> ''STM32N6''"
  shows "boot_stage_cmds h self command f r soc elf_path srv gargs =
     Inr (srv @ [''--initialize-reset''], gargs @ [''-ex'', ''load '' @ elf_path])"
  using assms by (auto simp add: boot_stage_cmds_def)

lemma boot_stage_cmds_flag:
  assumes "boot_stage_cmds h self command f r soc elf_path srv gargs = Inr (srv', gargs')"
  shows "srv' = srv @ [if command = ''attach'' \<or> (\<not> f \<and> \<not> r \<and> soc = ''STM32N6'')
                       then ''--attach'' else ''--initialize-reset'']"
  using assms by (auto simp: boot_stage_cmds_def split: if_splits sum.splits)

lemma serial_and_loader_Inr:
  assumes "serial_and_loader h self cp srv = Inr srv'"
  shows "srv' = srv @
           (if truthy (stlink_serial self)
            then [''--serial-number'', the (stlink_serial self)] else []) @
           (if truthy (external_loader self)
            then (if do_external_init self then [''--external-init''] else []) @
                 [''--extload'', joinpath h (joinpath h cp ''ExternalLoader'')
                                   (the (external_loader self))]
            else [])"
    and "truthy (external_loader self) \<Longrightarrow>
           path_exists h (joinpath h (joinpath h cp ''ExternalLoader'')
             (the (external_loader self)))"
  using assms by (auto simp: serial_and_loader_def Let_def split: if_splits)

lemma serial_and_loader_missing:
  assumes "truthy (external_loader self)"
    and "\<not> path_exists h (joinpath h (joinpath h cp ''ExternalLoader'')
             (the (external_loader self)))"
  shows "serial_and_loader h self cp srv =
           Inl (RuntimeError (''External loader '' @ the (external_loader self) @
                  '' does not exist''))"
  using assms by (simp add: serial_and_loader_def Let_def)

lemma server_base_cmd_eq:
  "server_base_cmd h self gp cp =
     [as_posix h gp, ''--stm32cubeprogrammer-path'', absolute h cp,
      ''--port-number'', str_int (gdb_port self),
      ''--apid'', str_int_opt (ap_id self), ''--halt''] @
     (if swd self then [''--swd''] else [])"
  by (simp add: server_base_cmd_def Let_def)

lemma build_commands_InrE:
  assumes "build_commands h self command = Inr (srv, gargs)"
  obtains elf gp cp srv1 where
    "elf_file (cfg self) = Some elf"
    "get_stm32cubeclt_paths h = Inr (gp, cp)"
    "boot_stage_cmds h self command (is_fsbl_mode (get_start_address h self))
        (is_ram_mode (get_start_address h self)) (get_stm32_soc h self) (as_posix h (mk_path h elf))
        (server_base_cmd h self gp cp)
        [''-ex'', ''target remote :'' @ str_int (gdb_port self), as_posix h (mk_path h elf)]
      = Inr (srv1, gargs)"
    "serial_and_loader h self cp srv1 = Inr srv"
  using assms unfolding build_commands_def Let_def
  by (auto split: option.splits sum.splits prod.splits)

lemma build_commands_server:
  assumes "build_commands h self command = Inr (srv, gargs)"
  obtains gp cp where
    "get_stm32cubeclt_paths h = Inr (gp, cp)"
    "srv = [as_posix h gp, ''--stm32cubeprogrammer-path'', absolute h cp,
            ''--port-number'', str_int (gdb_port self),
            ''--apid'', str_int_opt (ap_id self), ''--halt''] @
           (if swd self then [''--swd''] else []) @
           [if command = ''attach'' \<or> (\<not> is_fsbl_mode (get_start_address h self) \<and>
                \<not> is_ram_mode (get_start_address h self) \<and> get_stm32_soc h self = ''STM32N6'')
            then ''--attach'' else ''--initialize-reset''] @
           (if truthy (stlink_serial self)
            then [''--serial-number'', the (stlink_serial self)] else []) @
           (if truthy (external_loader self)
            then (if do_external_init self then [''--external-init''] else []) @
                 [''--extload'', joinpath h (joinpath h cp ''ExternalLoader'')
                                   (the (external_loader self))]
            else [])"
proof -
  from assms obtain elf gp cp srv1 where
    p: "get_stm32cubeclt_paths h = Inr (gp, cp)"
    and b: "boot_stage_cmds h self command (is_fsbl_mode (get_start_address h self))
        (is_ram_mode (get_start_address h self)) (get_stm32_soc h self) (as_posix h (mk_path h elf))
        (server_base_cmd h self gp cp)
        [''-ex'', ''target remote :'' @ str_int (gdb_port self), as_posix h (mk_path h elf)]
      = Inr (srv1, gargs)"
    and s: "serial_and_loader h self cp srv1 = Inr srv"
    by (rule build_commands_InrE)
  show ?thesis
    using p boot_stage_cmds_flag [OF b] serial_and_loader_Inr(1) [OF s]
    by (intro that [of gp cp]) (simp_all add: server_base_cmd_eq)
qed

lemma server_flags_build:
  assumes "build_commands h self command = Inr (srv, gargs)"
  shows "server_flags srv =
      [''--stm32cubeprogrammer-path'', ''--port-number'', ''--apid'', ''--halt''] @
      (if swd self then [''--swd''] else []) @
      [if command = ''attach'' \<or> (\<not> is_fsbl_mode (get_start_address h self) \<and>
            \<not> is_ram_mode (get_start_address h self) \<and> get_stm32_soc h self = ''STM32N6'')
       then ''--attach'' else ''--initialize-reset''] @
      (if truthy (stlink_serial self) then [''--serial-number''] else []) @
      (if truthy (external_loader self)
       then (if do_external_init self then [''--external-init''] else []) @ [''--extload'']
       else [])"
proof -
  from assms obtain gp cp where
    "srv = [as_posix h gp, ''--stm32cubeprogrammer-path'', absolute h cp,
            ''--port-number'', str_int (gdb_port self),
            ''--apid'', str_int_opt (ap_id self), ''--halt''] @
           (if swd self then [''--swd''] else []) @
           [if command = ''attach'' \<or> (\<not> is_fsbl_mode (get_start_address h self) \<and>
                \<not> is_ram_mode (get_start_address h self) \<and> get_stm32_soc h self = ''STM32N6'')
            then ''--attach'' else ''--initialize-reset''] @
           (if truthy (stlink_serial self)
            then [''--serial-number'', the (stlink_serial self)] else []) @
           (if truthy (external_loader self)
            then (if do_external_init self then [''--external-init''] else []) @
                 [''--extload'', joinpath h (joinpath h cp ''ExternalLoader'')
                                   (the (external_loader self))]
            else [])"
    by (rule build_commands_server)
  then show ?thesis
    by (simp add: server_flags_def)
qed

lemma build_commands_nonempty:
  assumes "build_commands h self command = Inr (srv, gargs)"
  shows "srv \<noteq> []"
  using assms by (rule build_commands_server) simp

subsection \<open>Unfolding the samples\<close>

lemmas host_defs = linux_host_def fsbl_host_def chained_host_def n6_host_def scan_host_def
  garbled_host_def nocolon_host_def
  posix_path_def posix_join_def posix_parent_def posix_name_def
lemmas runner_defs = sample_runner_def loader_runner_def jtag_runner_def init_def
  STLINK_GDB_SERVER_DEFAULT_PORT_def
lemmas str_defs = str_int_def str_int_opt_def str_nat.simps digit_char_def truthy_def
lemmas entry_defs = get_start_address_def get_stm32_soc_def n6_config_def replace_def
  readelf_output_def strip_def
  is_space_def py_int16_def hex_body_ok_def hex_body_val_def is_hex_def hex_val_def is_digit_def
lemmas run_defs = do_run_def do_attach_debug_debugserver_def require_def build_commands_def
  boot_stage_cmds_def server_base_cmd_def serial_and_loader_def find_mcuboot_elf_def
  get_stm32cubeclt_paths_def is_fsbl_mode_def is_ram_mode_def Let_def

subsection \<open>What a successful run returns\<close>

lemma do_attach_InrE:
  assumes "do_attach_debug_debugserver h self command = Inr act"
  obtains srv gargs where
    "build_commands h self command = Inr (srv, gargs)"
    "command = ''debugserver'' \<Longrightarrow> act = CheckCall srv"
    "command \<noteq> ''debugserver'' \<Longrightarrow>
       \<exists>gdb_exe. gdb (cfg self) = Some gdb_exe \<and> act = RunServerAndClient srv (gdb_exe # gargs)"
  using assms unfolding do_attach_debug_debugserver_def Let_def
  by (auto split: sum.splits prod.splits if_splits option.splits)

lemma build_commands_attach:
  assumes "build_commands h self ''attach'' = Inr (srv, gargs)"
  shows "\<exists>elf. elf_file (cfg self) = Some elf \<and>
           gargs = [''-ex'', ''target remote :'' @ str_int (gdb_port self),
                    as_posix h (mk_path h elf)]"
proof -
  from assms obtain elf gp cp srv1 where
    e: "elf_file (cfg self) = Some elf"
    and b: "boot_stage_cmds h self ''attach'' (is_fsbl_mode (get_start_address h self))
        (is_ram_mode (get_start_address h self)) (get_stm32_soc h self) (as_posix h (mk_path h elf))
        (server_base_cmd h self gp cp)
        [''-ex'', ''target remote :'' @ str_int (gdb_port self), as_posix h (mk_path h elf)]
      = Inr (srv1, gargs)"
    by (rule build_commands_InrE)
  from b have "gargs = [''-ex'', ''target remote :'' @ str_int (gdb_port self),
                        as_posix h (mk_path h elf)]"
    by (simp add: boot_stage_cmds_attach)
  with e show ?thesis by simp
qed

lemma build_commands_chained:
  assumes "command \<noteq> ''attach''"
    and "\<not> is_fsbl_mode (get_start_address h self)"
    and "\<not> is_ram_mode (get_start_address h self)"
    and "get_stm32_soc h self = ''STM32N6''"
    and "build_commands h self command = Inr (srv, gargs)"
  shows "\<exists>elf mcuboot_elf. elf_file (cfg self) = Some elf \<and>
           find_mcuboot_elf h self = Inr mcuboot_elf \<and>
           gargs = [''-ex'', ''target remote :'' @ str_int (gdb_port self),
                    ''-ex'', ''load'',
                    ''-ex'', ''hbreak boot_go'',
                    ''-ex'', ''continue'',
                    ''-ex'', ''set confirm off'',
                    ''-ex'', ''add-symbol-file '' @ as_posix h (mk_path h elf),
                    ''-ex'', ''set confirm on'',
                    ''-ex'', ''break main'',
                    ''-ex'', ''continue'',
                    mcuboot_elf]"
proof -
  from assms(5) obtain elf gp cp srv1 where
    e: "elf_file (cfg self) = Some elf"
    and b: "boot_stage_cmds h self command (is_fsbl_mode (get_start_address h self))
        (is_ram_mode (get_start_address h self)) (get_stm32_soc h self) (as_posix h (mk_path h elf))
        (server_base_cmd h self gp cp)
        [''-ex'', ''target remote :'' @ str_int (gdb_port self), as_posix h (mk_path h elf)]
      = Inr (srv1, gargs)"
    by (rule build_commands_InrE)
  from b assms(1-4) e show ?thesis
    by (auto simp: boot_stage_cmds_chained split: sum.splits)
qed

lemma do_attach_server:
  assumes "do_attach_debug_debugserver h self command = Inr act"
  shows "\<exists>gargs. build_commands h self command = Inr (server_cmd_of (Inr act), gargs)"
proof (rule do_attach_InrE [OF assms])
  fix srv gargs
  assume b: "build_commands h self command = Inr (srv, gargs)"
    and s: "command = ''debugserver'' \<Longrightarrow> act = CheckCall srv"
    and c: "command \<noteq> ''debugserver'' \<Longrightarrow>
       \<exists>gdb_exe. gdb (cfg self) = Some gdb_exe \<and> act = RunServerAndClient srv (gdb_exe # gargs)"
  have "server_cmd_of (Inr act) = srv"
    using s c by (cases "command = ''debugserver''") (auto simp: server_cmd_of_def)
  with b show ?thesis by blast
qed

lemma do_attach_build_Inl:
  "build_commands h self command = Inl e \<Longrightarrow> do_attach_debug_debugserver h self command = Inl e"
  by (simp add: do_attach_debug_debugserver_def)

lemma build_commands_loader_missing:
  assumes "truthy (external_loader self)"
    and "get_stm32cubeclt_paths h = Inr (gp, cp)"
    and "\<not> path_exists h (joinpath h (joinpath h cp ''ExternalLoader'')
             (the (external_loader self)))"
  shows "build_commands h self command =
     (case elf_file (cfg self) of
        None \<Rightarrow> Inl AssertionError
      | Some elf \<Rightarrow>
          if command \<noteq> ''attach'' \<and> \<not> is_fsbl_mode (get_start_address h self) \<and>
             \<not> is_ram_mode (get_start_address h self) \<and> get_stm32_soc h self = ''STM32N6''
          then (case find_mcuboot_elf h self of
                  Inl e \<Rightarrow> Inl e
                | Inr m \<Rightarrow> Inl (RuntimeError (''External loader '' @
                             the (external_loader self) @ '' does not exist'')))
          else Inl (RuntimeError (''External loader '' @
                 the (external_loader self) @ '' does not exist'')))"
  using assms
  by (simp add: build_commands_def Let_def boot_stage_cmds_def serial_and_loader_missing
      split: option.splits sum.splits)

lemma scan_entry_point_find:
  "scan_entry_point ls =
     (case find (contains_str ''Entry point address'') ls of
        None \<Rightarrow> 0
      | Some line \<Rightarrow>
          (case split_char (CHR '':'') line of
             _ # addr_str # _ \<Rightarrow>
               (case py_int16 (strip addr_str) of Some v \<Rightarrow> v | None \<Rightarrow> 0)
           | _ \<Rightarrow> 0))"
  by (induction ls) simp_all

lemma unreadable_start_address:
  assumes "entry_point_unreadable h self"
  shows "get_start_address h self = 0"
  using assms
  by (auto simp: entry_point_unreadable_def get_start_address_def scan_entry_point_find
      split: option.splits list.splits)

lemma unused_options_start:
  "get_start_address h (self \<lparr> two_boot_stage := b, mcuboot_offset := m \<rparr>)
     = get_start_address h self"
  by (simp add: get_start_address_def Let_def)

lemma unused_options_soc:
  "get_stm32_soc h (self \<lparr> two_boot_stage := b, mcuboot_offset := m \<rparr>) = get_stm32_soc h self"
  by (simp add: get_stm32_soc_def)

lemma unused_options_mcuboot:
  "find_mcuboot_elf h (self \<lparr> two_boot_stage := b, mcuboot_offset := m \<rparr>)
     = find_mcuboot_elf h self"
  by (simp add: find_mcuboot_elf_def Let_def)

lemma unused_options_base:
  "server_base_cmd h (self \<lparr> two_boot_stage := b, mcuboot_offset := m \<rparr>) gp cp
     = server_base_cmd h self gp cp"
  by (simp add: server_base_cmd_def Let_def)

lemma unused_options_stage:
  "boot_stage_cmds h (self \<lparr> two_boot_stage := b, mcuboot_offset := m \<rparr>) command f r soc
       elf_path srv gargs
     = boot_stage_cmds h self command f r soc elf_path srv gargs"
  by (simp add: boot_stage_cmds_def unused_options_mcuboot split: sum.splits)

lemma unused_options_loader:
  "serial_and_loader h (self \<lparr> two_boot_stage := b, mcuboot_offset := m \<rparr>) cp srv
     = serial_and_loader h self cp srv"
  by (simp add: serial_and_loader_def Let_def)

lemma unused_options_build:
  "build_commands h (self \<lparr> two_boot_stage := b, mcuboot_offset := m \<rparr>) command
     = build_commands h self command"
  by (simp add: build_commands_def unused_options_start unused_options_soc
      unused_options_base unused_options_stage unused_options_loader Let_def
      split: option.splits sum.splits prod.splits)

lemma unused_options_attach:
  "do_attach_debug_debugserver h (self \<lparr> two_boot_stage := b, mcuboot_offset := m \<rparr>) command
     = do_attach_debug_debugserver h self command"
  by (simp add: do_attach_debug_debugserver_def unused_options_build Let_def
      split: option.splits sum.splits prod.splits)

lemma init_options:
  "init c s a ser p ext xi tb off =
     (init c s a ser p ext xi False None)
       \<lparr> two_boot_stage := tb, mcuboot_offset := mcuboot_offset (init c s a ser p ext xi tb off) \<rparr>"
  by (simp add: init_def)

subsection \<open>The scan for installations\<close>

lemma installations_of_iff:
  "(v, f) \<in> set (installations_of h fs) \<longleftrightarrow>
     f \<in> set fs \<and>
     (\<exists>m1 m2 m3. CUBECLT_FLDR_RE_match (path_name h f) = Some (m1, m2, m3) \<and>
        v = ver_num (int_dec m1) (int_dec m2) (int_dec m3))"
  by (induction fs) (auto simp: Let_def split: option.splits prod.splits)

lemma installations_of_empty:
  "installations_of h fs = [] \<longleftrightarrow>
     (\<forall>g \<in> set fs. CUBECLT_FLDR_RE_match (path_name h g) = None)"
  by (induction fs) (auto simp: Let_def split: option.splits prod.splits)

lemma sorted_reverse_first:
  assumes "sorted_reverse k xs = x # rest"
  shows "x \<in> set xs \<and> (\<forall>y \<in> set xs. k y \<le> k x)"
proof -
  from assms have s: "sort_key k (rev xs) = rev rest @ [x]"
    by (simp add: sorted_reverse_def rev_eq_Cons_iff)
  have "sorted (map k (sort_key k (rev xs)))"
    by (rule sorted_sort_key)
  with s have "\<forall>y \<in> set (rev rest). k y \<le> k x"
    by (simp add: sorted_append)
  moreover have "set xs = set (rev rest) \<union> {x}"
    using s set_sort [of k "rev xs"] by simp
  ultimately show ?thesis by auto
qed

lemma sorted_reverse_Nil: "sorted_reverse k xs = [] \<longleftrightarrow> xs = []"
proof -
  have "length (sorted_reverse k xs) = length xs"
    by (simp add: sorted_reverse_def)
  then show ?thesis
    by (metis length_0_conv)
qed

lemma find_highest_Some:
  assumes "find_highest_clt_version h t = Some f"
  shows "\<exists>v. (v, f) \<in> set (installations_of h (iterdir h t)) \<and>
           (\<forall>(w, g) \<in> set (installations_of h (iterdir h t)). w \<le> v)"
proof -
  from assms obtain x rest where
    s: "sorted_reverse fst (installations_of h (iterdir h t)) = x # rest" and f: "f = snd x"
    by (auto simp: find_highest_clt_version_def Let_def split: if_splits list.splits)
  from sorted_reverse_first [OF s] have
    "x \<in> set (installations_of h (iterdir h t))"
    "\<forall>y \<in> set (installations_of h (iterdir h t)). fst y \<le> fst x"
    by simp_all
  with f show ?thesis
    by (intro exI [of _ "fst x"]) auto
qed

lemma find_highest_None:
  "find_highest_clt_version h t = None \<longleftrightarrow>
     \<not> is_dir h t \<or> (\<forall>g \<in> set (iterdir h t). CUBECLT_FLDR_RE_match (path_name h g) = None)"
  by (auto simp: find_highest_clt_version_def Let_def installations_of_empty
      sorted_reverse_Nil split: list.splits)

lemma ver_num_mono:
  assumes "0 \<le> b" "b < 1000" "0 \<le> c" "c < 1000" "0 \<le> b'" "b' < 1000" "0 \<le> c'" "c' < 1000"
  shows "ver_less (a, b, c) (a', b', c') \<longleftrightarrow> ver_num a b c < ver_num a' b' c'"
  using assms unfolding ver_less_def ver_num_def prod.case by linarith

lemma int_dec_foldl_nonneg:
  "list_all is_digit s \<Longrightarrow> 0 \<le> a \<Longrightarrow> 0 \<le> foldl (\<lambda>a c. 10 * a + digit_val c) a s"
proof (induction s arbitrary: a)
  case Nil
  then show ?case by simp
next
  case (Cons d s)
  from Cons.prems have "0 \<le> digit_val d"
    by (auto simp: is_digit_def digit_val_def)
  with Cons show ?case by simp
qed

lemma int_dec_nonneg: "list_all is_digit s \<Longrightarrow> 0 \<le> int_dec s"
  by (simp add: int_dec_def int_dec_foldl_nonneg)

lemma try_minor_digits:
  "k \<le> length (takeWhile is_digit s) \<Longrightarrow> try_minor k s = Some (mi, rv) \<Longrightarrow>
     list_all is_digit mi \<and> list_all is_digit rv"
proof (induction k)
  case 0
  then show ?case by simp
next
  case (Suc k)
  have t: "list_all is_digit (take (Suc k) s)"
  proof -
    have "take (Suc k) s = take (Suc k) (takeWhile is_digit s)"
      using Suc.prems(1)
      by (metis append_eq_conv_conj takeWhile_dropWhile_id take_append
          diff_is_0_eq take_0 append_Nil2)
    moreover have "list_all is_digit (takeWhile is_digit s)"
      by (simp add: list_all_iff) (meson set_takeWhileD)
    ultimately show ?thesis
      by (metis list_all_iff in_set_takeD)
  qed
  have w: "list_all is_digit (takeWhile is_digit r)" for r
    by (simp add: list_all_iff) (meson set_takeWhileD)
  from Suc show ?case
    using t w by (auto split: list.splits if_splits)
qed

lemma match_digits:
  assumes "CUBECLT_FLDR_RE_match name = Some (m1, m2, m3)"
  shows "list_all is_digit m2 \<and> list_all is_digit m3"
  using assms try_minor_digits [OF order_refl]
  by (auto simp: CUBECLT_FLDR_RE_match_def split: if_splits list.splits option.splits)

section \<open>The claims\<close>

text \<open>
  C1. The boot mode is the ordered first-match policy over the entry point and the SoC
  family: FSBL when the entry point masked with 0xFFFF0000 is 0x34180000, else RAM when it
  lies in [0x34000000, 0x34180000), else FlashChained for the family STM32N6, else
  Unknown. The runner's two predicates and the branch it takes agree with that policy:
  \<open>spec_classify\<close> is FSBL exactly when \<open>is_fsbl_mode\<close> holds, RAM exactly when
  \<open>is_ram_mode\<close> holds, and, for a command other than attach, the server is started with
  \<^verbatim>\<open>--attach\<close> exactly in the mode FlashChained and with \<^verbatim>\<open>--initialize-reset\<close>
  exactly in the other three. Every address from 0x34180000 to 0x3418FFFF is FSBL for
  every family, and 0x08040000 is FlashChained with STM32N6 and Unknown with STM32F4.
\<close>

theorem boot_mode_classification:
  "(spec_classify a soc = FSBL \<longleftrightarrow> is_fsbl_mode a) \<and>
   (spec_classify a soc = RAM \<longleftrightarrow> is_ram_mode a) \<and>
   (spec_classify a soc = FlashChained \<longleftrightarrow>
      \<not> is_fsbl_mode a \<and> \<not> is_ram_mode a \<and> soc = ''STM32N6'') \<and>
   (spec_classify a soc = Unknown \<longleftrightarrow>
      \<not> is_fsbl_mode a \<and> \<not> is_ram_mode a \<and> soc \<noteq> ''STM32N6'') \<and>
   (0x34180000 \<le> a \<and> a \<le> 0x3418FFFF \<longrightarrow> is_fsbl_mode a \<and> spec_classify a soc = FSBL) \<and>
   spec_classify 0x08040000 ''STM32N6'' = FlashChained \<and>
   spec_classify 0x08040000 ''STM32F4'' = Unknown \<and>
   (command \<noteq> ''attach'' \<and> build_commands h self command = Inr (srv, gargs) \<longrightarrow>
      (''--attach'' \<in> set (server_flags srv) \<longleftrightarrow>
         spec_classify (get_start_address h self) (get_stm32_soc h self) = FlashChained) \<and>
      (''--initialize-reset'' \<in> set (server_flags srv) \<longleftrightarrow>
         spec_classify (get_start_address h self) (get_stm32_soc h self) \<noteq> FlashChained))"
proof -
  have modes:
    "(spec_classify a soc = FSBL \<longleftrightarrow> is_fsbl_mode a) \<and>
     (spec_classify a soc = RAM \<longleftrightarrow> is_ram_mode a) \<and>
     (spec_classify a soc = FlashChained \<longleftrightarrow>
        \<not> is_fsbl_mode a \<and> \<not> is_ram_mode a \<and> soc = ''STM32N6'') \<and>
     (spec_classify a soc = Unknown \<longleftrightarrow>
        \<not> is_fsbl_mode a \<and> \<not> is_ram_mode a \<and> soc \<noteq> ''STM32N6'')"
    using ram_not_fsbl [of a] by (auto simp: spec_classify_code)
  have window: "0x34180000 \<le> a \<and> a \<le> 0x3418FFFF \<longrightarrow> is_fsbl_mode a \<and> spec_classify a soc = FSBL"
    using fsbl_window [of a] by (simp add: spec_classify_code)
  have flash: "spec_classify 0x08040000 ''STM32N6'' = FlashChained"
    "spec_classify 0x08040000 ''STM32F4'' = Unknown"
    by (simp_all add: spec_classify_def)
  have branch: "(''--attach'' \<in> set (server_flags srv) \<longleftrightarrow>
         spec_classify (get_start_address h self) (get_stm32_soc h self) = FlashChained) \<and>
      (''--initialize-reset'' \<in> set (server_flags srv) \<longleftrightarrow>
         spec_classify (get_start_address h self) (get_stm32_soc h self) \<noteq> FlashChained)"
    if c: "command \<noteq> ''attach''" and b: "build_commands h self command = Inr (srv, gargs)"
    using c ram_not_fsbl [of "get_start_address h self"]
    by (auto simp: server_flags_build [OF b] spec_classify_code)
  from modes window flash branch show ?thesis by blast
qed

theorem boot_mode_classification_witness:
  "(0x34180000 :: int) \<le> 0x34185000 \<and> (0x34185000 :: int) \<le> 0x3418FFFF \<and>
   is_fsbl_mode 0x34185000 \<and> spec_classify 0x34185000 ''STM32F4'' = FSBL \<and>
   ''debug'' \<noteq> ''attach'' \<and>
   build_commands chained_host sample_runner ''debug'' =
     Inr ([''/opt/st/clt/STLink-gdb-server/bin/ST-LINK_gdbserver'',
           ''--stm32cubeprogrammer-path'', ''/opt/st/clt/STM32CubeProgrammer/bin'',
           ''--port-number'', ''61234'', ''--apid'', ''0'', ''--halt'', ''--swd'', ''--attach''],
          [''-ex'', ''target remote :61234'', ''-ex'', ''load'', ''-ex'', ''hbreak boot_go'',
           ''-ex'', ''continue'', ''-ex'', ''set confirm off'',
           ''-ex'', ''add-symbol-file /work/build/zephyr/zephyr.elf'',
           ''-ex'', ''set confirm on'', ''-ex'', ''break main'', ''-ex'', ''continue'',
           ''/work/build/mcuboot/zephyr/zephyr.elf'']) \<and>
   spec_classify (get_start_address chained_host sample_runner) 
       (get_stm32_soc chained_host sample_runner)
     = FlashChained"
proof -
  have b: "build_commands chained_host sample_runner ''debug'' =
     Inr ([''/opt/st/clt/STLink-gdb-server/bin/ST-LINK_gdbserver'',
           ''--stm32cubeprogrammer-path'', ''/opt/st/clt/STM32CubeProgrammer/bin'',
           ''--port-number'', ''61234'', ''--apid'', ''0'', ''--halt'', ''--swd'', ''--attach''],
          [''-ex'', ''target remote :61234'', ''-ex'', ''load'', ''-ex'', ''hbreak boot_go'',
           ''-ex'', ''continue'', ''-ex'', ''set confirm off'',
           ''-ex'', ''add-symbol-file /work/build/zephyr/zephyr.elf'',
           ''-ex'', ''set confirm on'', ''-ex'', ''break main'', ''-ex'', ''continue'',
           ''/work/build/mcuboot/zephyr/zephyr.elf''])"
    by (simp add: run_defs host_defs runner_defs str_defs entry_defs)
  show ?thesis
    using b boot_mode_classification [where a = "0x34185000" and soc = "''STM32F4''"
        and command = "''debug''" and h = chained_host and self = sample_runner
        and srv = "[''/opt/st/clt/STLink-gdb-server/bin/ST-LINK_gdbserver'',
           ''--stm32cubeprogrammer-path'', ''/opt/st/clt/STM32CubeProgrammer/bin'',
           ''--port-number'', ''61234'', ''--apid'', ''0'', ''--halt'', ''--swd'', ''--attach'']"
        and gargs = "[''-ex'', ''target remote :61234'', ''-ex'', ''load'', ''-ex'', ''hbreak boot_go'',
           ''-ex'', ''continue'', ''-ex'', ''set confirm off'',
           ''-ex'', ''add-symbol-file /work/build/zephyr/zephyr.elf'',
           ''-ex'', ''set confirm on'', ''-ex'', ''break main'', ''-ex'', ''continue'',
           ''/work/build/mcuboot/zephyr/zephyr.elf'']"]
    by (simp add: server_flags_def)
qed

text \<open>
  C2 as stated fails: in the mode FlashChained with a command other than attach, the
  debugger is told \<^verbatim>\<open>add-symbol-file\<close> with the path of the application's ELF file and
  nothing else. The MCUboot image offset (here its default, 0x08040000) appears nowhere in
  the client's command line.
\<close>

theorem chained_symbols_offset_counterexample:
  "mcuboot_offset sample_runner = ''0x08040000'' \<and>
   spec_classify (get_start_address chained_host sample_runner) 
       (get_stm32_soc chained_host sample_runner)
     = FlashChained \<and>
   ex_commands (tl (client_cmd_of (do_run chained_host sample_runner ''debug''))) =
     [''target remote :61234'', ''load'', ''hbreak boot_go'', ''continue'',
      ''set confirm off'', ''add-symbol-file /work/build/zephyr/zephyr.elf'',
      ''set confirm on'', ''break main'', ''continue''] \<and>
   \<not> list_ex (contains_str ''0x08040000'')
       (client_cmd_of (do_run chained_host sample_runner ''debug''))"
  by (simp add: run_defs host_defs runner_defs str_defs entry_defs client_cmd_of_def
      spec_classify_def)

text \<open>
  C2, amended. In the mode FlashChained with a command other than attach, the debugger's
  commands are, in this order: connect, load, a hardware breakpoint at \<^verbatim>\<open>boot_go\<close>,
  continue; then, once halted there, \<^verbatim>\<open>set confirm off\<close>, \<^verbatim>\<open>add-symbol-file\<close> with the
  application's ELF path and no address (the MCUboot image offset is not passed),
  \<^verbatim>\<open>set confirm on\<close>, a breakpoint at \<^verbatim>\<open>main\<close>, continue. No load follows the halt.
  The debugger is started on the bootloader's ELF file.
\<close>

theorem chained_debug_commands:
  assumes "command \<noteq> ''attach''"
    and "spec_classify (get_start_address h self) (get_stm32_soc h self) = FlashChained"
    and "build_commands h self command = Inr (srv, gargs)"
  shows "\<exists>elf mcuboot_elf.
           elf_file (cfg self) = Some elf \<and> find_mcuboot_elf h self = Inr mcuboot_elf \<and>
           gargs = [''-ex'', ''target remote :'' @ str_int (gdb_port self),
                    ''-ex'', ''load'',
                    ''-ex'', ''hbreak boot_go'',
                    ''-ex'', ''continue'',
                    ''-ex'', ''set confirm off'',
                    ''-ex'', ''add-symbol-file '' @ as_posix h (mk_path h elf),
                    ''-ex'', ''set confirm on'',
                    ''-ex'', ''break main'',
                    ''-ex'', ''continue'',
                    mcuboot_elf] \<and>
           drop 4 (ex_commands gargs) =
             [''set confirm off'', ''add-symbol-file '' @ as_posix h (mk_path h elf),
              ''set confirm on'', ''break main'', ''continue'']"
proof -
  from assms(2) have m: "\<not> is_fsbl_mode (get_start_address h self)"
    "\<not> is_ram_mode (get_start_address h self)" "get_stm32_soc h self = ''STM32N6''"
    by (simp_all add: spec_classify_code split: if_splits)
  from build_commands_chained [OF assms(1) m assms(3)] show ?thesis
    by auto
qed

theorem chained_debug_commands_witness:
  "''debug'' \<noteq> ''attach'' \<and>
   spec_classify (get_start_address chained_host sample_runner) 
       (get_stm32_soc chained_host sample_runner)
     = FlashChained \<and>
   (\<exists>srv gargs. build_commands chained_host sample_runner ''debug'' = Inr (srv, gargs) \<and>
      drop 4 (ex_commands gargs) =
        [''set confirm off'', ''add-symbol-file /work/build/zephyr/zephyr.elf'',
         ''set confirm on'', ''break main'', ''continue''])"
proof -
  have c: "spec_classify (get_start_address chained_host sample_runner) 
       (get_stm32_soc chained_host sample_runner)
     = FlashChained"
    by (simp add: spec_classify_def host_defs runner_defs entry_defs)
  have b: "build_commands chained_host sample_runner ''debug'' =
     Inr ([''/opt/st/clt/STLink-gdb-server/bin/ST-LINK_gdbserver'',
           ''--stm32cubeprogrammer-path'', ''/opt/st/clt/STM32CubeProgrammer/bin'',
           ''--port-number'', ''61234'', ''--apid'', ''0'', ''--halt'', ''--swd'', ''--attach''],
          [''-ex'', ''target remote :61234'', ''-ex'', ''load'', ''-ex'', ''hbreak boot_go'',
           ''-ex'', ''continue'', ''-ex'', ''set confirm off'',
           ''-ex'', ''add-symbol-file /work/build/zephyr/zephyr.elf'',
           ''-ex'', ''set confirm on'', ''-ex'', ''break main'', ''-ex'', ''continue'',
           ''/work/build/mcuboot/zephyr/zephyr.elf''])"
    by (simp add: run_defs host_defs runner_defs str_defs entry_defs)
  have "''debug'' \<noteq> ''attach''" by simp
  from chained_debug_commands [OF this c b] c b show ?thesis
    by simp
qed

text \<open>
  C3. For the command \<^verbatim>\<open>debugserver\<close> a successful run starts one process only, the
  server, with exactly the server command line that was built: no client command line is
  passed on and the call that starts two processes is never made, whatever the mode.
\<close>

theorem debugserver_spawns_server_only:
  assumes "do_attach_debug_debugserver h self ''debugserver'' = Inr act"
  shows "(\<exists>srv gargs. build_commands h self ''debugserver'' = Inr (srv, gargs) \<and>
            act = CheckCall srv) \<and>
         (\<forall>s c. act \<noteq> RunServerAndClient s c) \<and>
         client_cmd_of (do_run h self ''debugserver'') = []"
proof -
  from assms obtain srv gargs where
    b: "build_commands h self ''debugserver'' = Inr (srv, gargs)" and a: "act = CheckCall srv"
    by (rule do_attach_InrE) simp
  from a b assms show ?thesis
    by (simp add: do_run_def client_cmd_of_def)
qed

theorem debugserver_spawns_server_only_witness:
  "do_attach_debug_debugserver chained_host sample_runner ''debugserver'' =
     Inr (CheckCall
       [''/opt/st/clt/STLink-gdb-server/bin/ST-LINK_gdbserver'',
        ''--stm32cubeprogrammer-path'', ''/opt/st/clt/STM32CubeProgrammer/bin'',
        ''--port-number'', ''61234'', ''--apid'', ''0'', ''--halt'', ''--swd'', ''--attach'']) \<and>
   client_cmd_of (do_run chained_host sample_runner ''debugserver'') = []"
proof -
  have r: "do_attach_debug_debugserver chained_host sample_runner ''debugserver'' =
     Inr (CheckCall
       [''/opt/st/clt/STLink-gdb-server/bin/ST-LINK_gdbserver'',
        ''--stm32cubeprogrammer-path'', ''/opt/st/clt/STM32CubeProgrammer/bin'',
        ''--port-number'', ''61234'', ''--apid'', ''0'', ''--halt'', ''--swd'', ''--attach''])"
    by (simp add: run_defs host_defs runner_defs str_defs entry_defs)
  from debugserver_spawns_server_only [OF r] r show ?thesis
    by simp
qed

text \<open>
  C4 as stated fails: with the entry point 0x34185000 (mode FSBL) and the command attach,
  the server does get \<^verbatim>\<open>--attach\<close>, but the debugger gets one command only, the
  connection to the server. There is no load.
\<close>

theorem fsbl_attach_load_counterexample:
  "get_start_address fsbl_host sample_runner = 0x34185000 \<and>
   spec_classify (get_start_address fsbl_host sample_runner) (get_stm32_soc fsbl_host sample_runner) = FSBL \<and>
   client_cmd_of (do_run fsbl_host sample_runner ''attach'') =
     [''/usr/bin/gdb'', ''-ex'', ''target remote :61234'', ''/work/build/zephyr/zephyr.elf''] \<and>
   ex_commands (tl (client_cmd_of (do_run fsbl_host sample_runner ''attach''))) =
     [''target remote :61234''] \<and>
   \<not> list_ex (contains_str ''load'') (client_cmd_of (do_run fsbl_host sample_runner ''attach''))"
  by (simp add: run_defs host_defs runner_defs str_defs entry_defs client_cmd_of_def
      spec_classify_def)

text \<open>
  C4, amended. For the entry point 0x34185000 the mode is FSBL; with the command attach
  the server's flags include \<^verbatim>\<open>--attach\<close>, and the debugger's arguments are exactly the
  connection to the server followed by the application's ELF path: one debugger command,
  and no load.
\<close>

theorem fsbl_attach_scenario:
  assumes "get_start_address h self = 0x34185000"
    and "do_attach_debug_debugserver h self ''attach'' = Inr act"
  shows "spec_classify (get_start_address h self) (get_stm32_soc h self) = FSBL \<and>
         ''--attach'' \<in> set (server_flags (server_cmd_of (Inr act))) \<and>
         (\<exists>gdb_exe elf.
            gdb (cfg self) = Some gdb_exe \<and> elf_file (cfg self) = Some elf \<and>
            client_cmd_of (Inr act) =
              [gdb_exe, ''-ex'', ''target remote :'' @ str_int (gdb_port self),
               as_posix h (mk_path h elf)]) \<and>
         ex_commands (tl (client_cmd_of (Inr act))) =
           [''target remote :'' @ str_int (gdb_port self)]"
proof -
  from assms(2) obtain srv gargs gdb_exe where
    b: "build_commands h self ''attach'' = Inr (srv, gargs)"
    and g: "gdb (cfg self) = Some gdb_exe" and a: "act = RunServerAndClient srv (gdb_exe # gargs)"
    by (rule do_attach_InrE) auto
  from build_commands_attach [OF b] obtain elf where
    e: "elf_file (cfg self) = Some elf"
    and ga: "gargs = [''-ex'', ''target remote :'' @ str_int (gdb_port self),
                      as_posix h (mk_path h elf)]"
    by blast
  have f: "spec_classify (get_start_address h self) (get_stm32_soc h self) = FSBL"
    by (simp add: assms(1) spec_classify_def)
  have s: "''--attach'' \<in> set (server_flags srv)"
    by (simp add: server_flags_build [OF b])
  from f s g e a ga show ?thesis
    by (simp add: server_cmd_of_def client_cmd_of_def)
qed

theorem fsbl_attach_scenario_witness:
  "get_start_address fsbl_host sample_runner = 0x34185000 \<and>
   do_attach_debug_debugserver fsbl_host sample_runner ''attach'' =
     Inr (RunServerAndClient
       [''/opt/st/clt/STLink-gdb-server/bin/ST-LINK_gdbserver'',
        ''--stm32cubeprogrammer-path'', ''/opt/st/clt/STM32CubeProgrammer/bin'',
        ''--port-number'', ''61234'', ''--apid'', ''0'', ''--halt'', ''--swd'', ''--attach'']
       [''/usr/bin/gdb'', ''-ex'', ''target remote :61234'',
        ''/work/build/zephyr/zephyr.elf'']) \<and>
   spec_classify (get_start_address fsbl_host sample_runner) (get_stm32_soc fsbl_host sample_runner) = FSBL"
proof -
  have s: "get_start_address fsbl_host sample_runner = 0x34185000"
    by (simp add: host_defs runner_defs entry_defs)
  have r: "do_attach_debug_debugserver fsbl_host sample_runner ''attach'' =
     Inr (RunServerAndClient
       [''/opt/st/clt/STLink-gdb-server/bin/ST-LINK_gdbserver'',
        ''--stm32cubeprogrammer-path'', ''/opt/st/clt/STM32CubeProgrammer/bin'',
        ''--port-number'', ''61234'', ''--apid'', ''0'', ''--halt'', ''--swd'', ''--attach'']
       [''/usr/bin/gdb'', ''-ex'', ''target remote :61234'',
        ''/work/build/zephyr/zephyr.elf''])"
    by (simp add: run_defs host_defs runner_defs str_defs entry_defs)
  from fsbl_attach_scenario [OF s r] s r show ?thesis
    by simp
qed

text \<open>
  C5. For the command attach, in every mode, a successful run starts the server with the
  flag \<^verbatim>\<open>--attach\<close> and without \<^verbatim>\<open>--initialize-reset\<close>, and starts the debugger with
  the connection to the server and the application's ELF path only: no load command.
\<close>

theorem attach_commands:
  assumes "do_attach_debug_debugserver h self ''attach'' = Inr act"
  shows "\<exists>srv gdb_exe elf.
           act = RunServerAndClient srv
                   [gdb_exe, ''-ex'', ''target remote :'' @ str_int (gdb_port self),
                    as_posix h (mk_path h elf)] \<and>
           gdb (cfg self) = Some gdb_exe \<and> elf_file (cfg self) = Some elf \<and>
           ''--attach'' \<in> set (server_flags srv) \<and>
           ''--initialize-reset'' \<notin> set (server_flags srv)"
proof -
  from assms obtain srv gargs gdb_exe where
    b: "build_commands h self ''attach'' = Inr (srv, gargs)"
    and g: "gdb (cfg self) = Some gdb_exe" and a: "act = RunServerAndClient srv (gdb_exe # gargs)"
    by (rule do_attach_InrE) auto
  from build_commands_attach [OF b] obtain elf where
    e: "elf_file (cfg self) = Some elf"
    and ga: "gargs = [''-ex'', ''target remote :'' @ str_int (gdb_port self),
                      as_posix h (mk_path h elf)]"
    by blast
  have s: "''--attach'' \<in> set (server_flags srv)"
    "''--initialize-reset'' \<notin> set (server_flags srv)"
    by (simp_all add: server_flags_build [OF b])
  from s g e a ga show ?thesis
    by simp
qed

theorem attach_commands_witness:
  "do_attach_debug_debugserver chained_host sample_runner ''attach'' =
     Inr (RunServerAndClient
       [''/opt/st/clt/STLink-gdb-server/bin/ST-LINK_gdbserver'',
        ''--stm32cubeprogrammer-path'', ''/opt/st/clt/STM32CubeProgrammer/bin'',
        ''--port-number'', ''61234'', ''--apid'', ''0'', ''--halt'', ''--swd'', ''--attach'']
       [''/usr/bin/gdb'', ''-ex'', ''target remote :61234'',
        ''/work/build/zephyr/zephyr.elf'']) \<and>
   ''--initialize-reset'' \<notin> set (server_flags
       [''/opt/st/clt/STLink-gdb-server/bin/ST-LINK_gdbserver'',
        ''--stm32cubeprogrammer-path'', ''/opt/st/clt/STM32CubeProgrammer/bin'',
        ''--port-number'', ''61234'', ''--apid'', ''0'', ''--halt'', ''--swd'', ''--attach''])"
proof -
  have r: "do_attach_debug_debugserver chained_host sample_runner ''attach'' =
     Inr (RunServerAndClient
       [''/opt/st/clt/STLink-gdb-server/bin/ST-LINK_gdbserver'',
        ''--stm32cubeprogrammer-path'', ''/opt/st/clt/STM32CubeProgrammer/bin'',
        ''--port-number'', ''61234'', ''--apid'', ''0'', ''--halt'', ''--swd'', ''--attach'']
       [''/usr/bin/gdb'', ''-ex'', ''target remote :61234'',
        ''/work/build/zephyr/zephyr.elf''])"
    by (simp add: run_defs host_defs runner_defs str_defs entry_defs)
  from attach_commands [OF r] r show ?thesis
    by auto
qed

text \<open>
  C6. Selection is by the maximum of MAJOR*1000000 + MINOR*1000 + PATCH, and that number is
  meant to follow the order of versions: the function is \<^verbatim>\<open>find_highest_clt_version\<close>
  and its comment reads "return the path to the most recent version". The code misses
  this once a minor or patch number reaches 1000, which the pattern \<^verbatim>\<open>\d+\<close> lets
  through. Version 1.0.1001 is lower than 1.1.0 and gets the higher number, and a scan
  that holds both returns 1.0.1001.
\<close>

theorem find_highest_returns_lower_version:
  "CUBECLT_FLDR_RE_match ''stm32cubeclt_1.1.0'' = Some (''1'', ''1'', ''0'') \<and>
   CUBECLT_FLDR_RE_match ''stm32cubeclt_1.0.1001'' = Some (''1'', ''0'', ''1001'') \<and>
   ver_less (1, 0, 1001) (1, 1, 0) \<and>
   ver_num 1 1 0 < ver_num 1 0 1001 \<and>
   find_highest_clt_version
     (scan_host [''/opt/st/stm32cubeclt_1.1.0'', ''/opt/st/stm32cubeclt_1.0.1001''])
     ''/opt/st'' = Some ''/opt/st/stm32cubeclt_1.0.1001''"
  by (simp add: ver_less_def ver_num_def find_highest_clt_version_def host_defs
      CUBECLT_FLDR_RE_match_def lower_def is_digit_def int_dec_def digit_val_def
      sorted_reverse_def)

text \<open>
  Where the scan is right. The installation returned has the maximal number among the
  folders whose name parses, and nothing is returned exactly when the tools folder is
  missing or no name parses. The number follows the order of versions strictly while
  minor and patch numbers stay below 1000, so in such a scan no version exceeds the one
  returned. With the versions 1.9.9, 2.1.0 and 2.0.99, installation 2.1.0 is returned.
\<close>

lemma highest_version_selected:
  "(find_highest_clt_version h t = Some f \<longrightarrow>
      f \<in> set (iterdir h t) \<and>
      (\<exists>m1 m2 m3. CUBECLT_FLDR_RE_match (path_name h f) = Some (m1, m2, m3) \<and>
         (\<forall>g \<in> set (iterdir h t). \<forall>n1 n2 n3.
            CUBECLT_FLDR_RE_match (path_name h g) = Some (n1, n2, n3) \<longrightarrow>
              ver_num (int_dec n1) (int_dec n2) (int_dec n3)
                \<le> ver_num (int_dec m1) (int_dec m2) (int_dec m3)) \<and>
         ((\<forall>g \<in> set (iterdir h t). \<forall>n1 n2 n3.
            CUBECLT_FLDR_RE_match (path_name h g) = Some (n1, n2, n3) \<longrightarrow>
              int_dec n2 < 1000 \<and> int_dec n3 < 1000) \<longrightarrow>
          (\<forall>g \<in> set (iterdir h t). \<forall>n1 n2 n3.
            CUBECLT_FLDR_RE_match (path_name h g) = Some (n1, n2, n3) \<longrightarrow>
              \<not> ver_less (int_dec m1, int_dec m2, int_dec m3)
                         (int_dec n1, int_dec n2, int_dec n3))))) \<and>
   (find_highest_clt_version h t = None \<longleftrightarrow>
      \<not> is_dir h t \<or>
      (\<forall>g \<in> set (iterdir h t). CUBECLT_FLDR_RE_match (path_name h g) = None)) \<and>
   (0 \<le> b \<and> b < 1000 \<and> 0 \<le> c \<and> c < 1000 \<and> 0 \<le> b' \<and> b' < 1000 \<and> 0 \<le> c' \<and> c' < 1000 \<longrightarrow>
      (ver_less (a, b, c) (a', b', c') \<longleftrightarrow> ver_num a b c < ver_num a' b' c')) \<and>
   find_highest_clt_version
     (scan_host [''/opt/st/stm32cubeclt_1.9.9'', ''/opt/st/STM32CubeCLT_2.1.0'',
                 ''/opt/st/stm32cubeclt_2.0.99''])
     ''/opt/st'' = Some ''/opt/st/STM32CubeCLT_2.1.0''"
proof -
  have sel: "f \<in> set (iterdir h t) \<and>
      (\<exists>m1 m2 m3. CUBECLT_FLDR_RE_match (path_name h f) = Some (m1, m2, m3) \<and>
         (\<forall>g \<in> set (iterdir h t). \<forall>n1 n2 n3.
            CUBECLT_FLDR_RE_match (path_name h g) = Some (n1, n2, n3) \<longrightarrow>
              ver_num (int_dec n1) (int_dec n2) (int_dec n3)
                \<le> ver_num (int_dec m1) (int_dec m2) (int_dec m3)) \<and>
         ((\<forall>g \<in> set (iterdir h t). \<forall>n1 n2 n3.
            CUBECLT_FLDR_RE_match (path_name h g) = Some (n1, n2, n3) \<longrightarrow>
              int_dec n2 < 1000 \<and> int_dec n3 < 1000) \<longrightarrow>
          (\<forall>g \<in> set (iterdir h t). \<forall>n1 n2 n3.
            CUBECLT_FLDR_RE_match (path_name h g) = Some (n1, n2, n3) \<longrightarrow>
              \<not> ver_less (int_dec m1, int_dec m2, int_dec m3)
                         (int_dec n1, int_dec n2, int_dec n3))))"
    if s: "find_highest_clt_version h t = Some f"
  proof -
    from find_highest_Some [OF s] obtain v where
      v: "(v, f) \<in> set (installations_of h (iterdir h t))"
      and mx: "\<forall>(w, g) \<in> set (installations_of h (iterdir h t)). w \<le> v"
      by blast
    from v obtain m1 m2 m3 where
      f: "f \<in> set (iterdir h t)"
      and m: "CUBECLT_FLDR_RE_match (path_name h f) = Some (m1, m2, m3)"
      and vm: "v = ver_num (int_dec m1) (int_dec m2) (int_dec m3)"
      by (auto simp: installations_of_iff)
    have le: "ver_num (int_dec n1) (int_dec n2) (int_dec n3)
                \<le> ver_num (int_dec m1) (int_dec m2) (int_dec m3)"
      if "g \<in> set (iterdir h t)"
        and "CUBECLT_FLDR_RE_match (path_name h g) = Some (n1, n2, n3)" for g n1 n2 n3
    proof -
      from that have "(ver_num (int_dec n1) (int_dec n2) (int_dec n3), g)
          \<in> set (installations_of h (iterdir h t))"
        by (auto simp: installations_of_iff)
      with mx vm show ?thesis by auto
    qed
    have nl: "\<not> ver_less (int_dec m1, int_dec m2, int_dec m3)
                         (int_dec n1, int_dec n2, int_dec n3)"
      if small: "\<forall>g \<in> set (iterdir h t). \<forall>n1 n2 n3.
            CUBECLT_FLDR_RE_match (path_name h g) = Some (n1, n2, n3) \<longrightarrow>
              int_dec n2 < 1000 \<and> int_dec n3 < 1000"
        and g: "g \<in> set (iterdir h t)"
        and n: "CUBECLT_FLDR_RE_match (path_name h g) = Some (n1, n2, n3)" for g n1 n2 n3
    proof -
      from small f m have "int_dec m2 < 1000" "int_dec m3 < 1000" by blast+
      moreover from small g n have "int_dec n2 < 1000" "int_dec n3 < 1000" by blast+
      moreover from match_digits [OF m] have "0 \<le> int_dec m2" "0 \<le> int_dec m3"
        by (simp_all add: int_dec_nonneg)
      moreover from match_digits [OF n] have "0 \<le> int_dec n2" "0 \<le> int_dec n3"
        by (simp_all add: int_dec_nonneg)
      ultimately have "ver_less (int_dec m1, int_dec m2, int_dec m3)
                         (int_dec n1, int_dec n2, int_dec n3) \<longleftrightarrow>
         ver_num (int_dec m1) (int_dec m2) (int_dec m3)
           < ver_num (int_dec n1) (int_dec n2) (int_dec n3)"
        by (intro ver_num_mono)
      with le [OF g n] show ?thesis by simp
    qed
    have A: "\<forall>g \<in> set (iterdir h t). \<forall>n1 n2 n3.
            CUBECLT_FLDR_RE_match (path_name h g) = Some (n1, n2, n3) \<longrightarrow>
              ver_num (int_dec n1) (int_dec n2) (int_dec n3)
                \<le> ver_num (int_dec m1) (int_dec m2) (int_dec m3)"
      using le by blast
    have B: "(\<forall>g \<in> set (iterdir h t). \<forall>n1 n2 n3.
            CUBECLT_FLDR_RE_match (path_name h g) = Some (n1, n2, n3) \<longrightarrow>
              int_dec n2 < 1000 \<and> int_dec n3 < 1000) \<longrightarrow>
          (\<forall>g \<in> set (iterdir h t). \<forall>n1 n2 n3.
            CUBECLT_FLDR_RE_match (path_name h g) = Some (n1, n2, n3) \<longrightarrow>
              \<not> ver_less (int_dec m1, int_dec m2, int_dec m3)
                         (int_dec n1, int_dec n2, int_dec n3))"
      using nl by blast
    from f m A B show ?thesis by blast
  qed
  have scan: "find_highest_clt_version
     (scan_host [''/opt/st/stm32cubeclt_1.9.9'', ''/opt/st/STM32CubeCLT_2.1.0'',
                 ''/opt/st/stm32cubeclt_2.0.99''])
     ''/opt/st'' = Some ''/opt/st/STM32CubeCLT_2.1.0''"
    by (simp add: ver_num_def find_highest_clt_version_def host_defs
        CUBECLT_FLDR_RE_match_def lower_def is_digit_def int_dec_def digit_val_def
        sorted_reverse_def)
  have mono: "0 \<le> b \<and> b < 1000 \<and> 0 \<le> c \<and> c < 1000 \<and> 0 \<le> b' \<and> b' < 1000 \<and> 0 \<le> c' \<and> c' < 1000 \<longrightarrow>
      (ver_less (a, b, c) (a', b', c') \<longleftrightarrow> ver_num a b c < ver_num a' b' c')"
    using ver_num_mono [of b c b' c' a a'] by blast
  from sel find_highest_None [of h t] mono scan show ?thesis
    by blast
qed

lemma highest_version_selected_sample:
  "find_highest_clt_version
     (scan_host [''/opt/st/stm32cubeclt_1.9.9'', ''/opt/st/STM32CubeCLT_2.1.0'',
                 ''/opt/st/stm32cubeclt_2.0.99''])
     ''/opt/st'' = Some ''/opt/st/STM32CubeCLT_2.1.0'' \<and>
   iterdir
     (scan_host [''/opt/st/stm32cubeclt_1.9.9'', ''/opt/st/STM32CubeCLT_2.1.0'',
                 ''/opt/st/stm32cubeclt_2.0.99''])
     ''/opt/st'' =
       [''/opt/st/stm32cubeclt_1.9.9'', ''/opt/st/STM32CubeCLT_2.1.0'',
        ''/opt/st/stm32cubeclt_2.0.99''] \<and>
   int_dec ''9'' < 1000 \<and> int_dec ''1'' < 1000 \<and> int_dec ''0'' < 1000 \<and>
   int_dec ''99'' < 1000 \<and>
   CUBECLT_FLDR_RE_match ''STM32CubeCLT_2.1.0'' = Some (''2'', ''1'', ''0'') \<and>
   CUBECLT_FLDR_RE_match ''stm32cubeclt_1.9.9'' = Some (''1'', ''9'', ''9'') \<and>
   CUBECLT_FLDR_RE_match ''stm32cubeclt_2.0.99'' = Some (''2'', ''0'', ''99'') \<and>
   \<not> ver_less (2, 1, 0) (1, 9, 9) \<and> \<not> ver_less (2, 1, 0) (2, 0, 99) \<and>
   (0::int) \<le> 0 \<and> (0::int) < 1000 \<and> (0::int) \<le> 99 \<and> (99::int) < 1000 \<and>
   (0::int) \<le> 1 \<and> (1::int) < 1000 \<and>
   ver_less (2, 0, 99) (2, 1, 0) \<and> ver_num 2 0 99 < ver_num 2 1 0"
  using highest_version_selected [where h = "scan_host [''/opt/st/stm32cubeclt_1.9.9'',
        ''/opt/st/STM32CubeCLT_2.1.0'', ''/opt/st/stm32cubeclt_2.0.99'']"
      and t = "''/opt/st''" and f = "''/opt/st/STM32CubeCLT_2.1.0''"
      and a = 2 and b = 0 and c = 99 and a' = 2 and b' = 1 and c' = 0]
  by (simp add: ver_num_def ver_less_def host_defs CUBECLT_FLDR_RE_match_def lower_def
      is_digit_def int_dec_def digit_val_def)

text \<open>
  C7 as stated fails: with an external loader configured and its file missing, an STM32N6
  build whose bootloader image is missing too fails on the bootloader image, which the
  runner looks for first. The run still fails before anything is started.
\<close>

theorem loader_error_precedence_counterexample:
  "truthy (external_loader loader_runner) \<and>
   get_stm32cubeclt_paths n6_host =
     Inr (''/opt/st/clt/STLink-gdb-server/bin/ST-LINK_gdbserver'',
          ''/opt/st/clt/STM32CubeProgrammer/bin'') \<and>
   \<not> path_exists n6_host
       (joinpath n6_host (joinpath n6_host ''/opt/st/clt/STM32CubeProgrammer/bin''
          ''ExternalLoader'') (the (external_loader loader_runner))) \<and>
   do_run n6_host loader_runner ''debug'' =
     Inl (RuntimeError (''MCUboot ELF not found. For --flash mode with sysbuild, '' @
                        ''MCUboot must be built (use --sysbuild flag)'')) \<and>
   do_run n6_host loader_runner ''debug'' \<noteq>
     Inl (RuntimeError ''External loader MX66.stldr does not exist'')"
  by (simp add: run_defs host_defs runner_defs str_defs entry_defs)

text \<open>
  C7, amended. If an external-loader name is configured and the corresponding path under
  the programmer tool's ExternalLoader folder does not exist, the run fails before any
  process is started, for every mode and command. The error is the external-loader one
  whenever the steps before that check succeed: the ELF file is configured and, in the
  mode FlashChained with a command other than attach, the bootloader image was found.
\<close>

theorem missing_external_loader_fails:
  assumes "truthy (external_loader self)"
    and "get_stm32cubeclt_paths h = Inr (gp, cp)"
    and "\<not> path_exists h (joinpath h (joinpath h cp ''ExternalLoader'')
             (the (external_loader self)))"
  shows "(\<exists>e. do_attach_debug_debugserver h self command = Inl e) \<and>
         (\<exists>e. do_run h self command = Inl e) \<and>
         (elf_file (cfg self) \<noteq> None \<and>
          (command = ''attach'' \<or>
           spec_classify (get_start_address h self) (get_stm32_soc h self) \<noteq> FlashChained \<or>
           (\<exists>m. find_mcuboot_elf h self = Inr m)) \<longrightarrow>
          do_attach_debug_debugserver h self command =
            Inl (RuntimeError (''External loader '' @ the (external_loader self) @
                   '' does not exist'')))"
proof -
  note b = build_commands_loader_missing [OF assms, of command]
  have 1: "\<exists>e. build_commands h self command = Inl e"
    unfolding b by (auto split: option.splits sum.splits)
  then have 2: "\<exists>e. do_attach_debug_debugserver h self command = Inl e"
    by (auto dest: do_attach_build_Inl)
  then have 3: "\<exists>e. do_run h self command = Inl e"
    by (auto simp: do_run_def)
  have 4: "do_attach_debug_debugserver h self command =
            Inl (RuntimeError (''External loader '' @ the (external_loader self) @
                   '' does not exist''))"
    if "elf_file (cfg self) \<noteq> None"
      and "command = ''attach'' \<or>
           spec_classify (get_start_address h self) (get_stm32_soc h self) \<noteq> FlashChained \<or>
           (\<exists>m. find_mcuboot_elf h self = Inr m)"
  proof (rule do_attach_build_Inl)
    show "build_commands h self command =
            Inl (RuntimeError (''External loader '' @ the (external_loader self) @
                   '' does not exist''))"
      unfolding b using that
      by (auto simp: spec_classify_code split: option.splits sum.splits if_splits)
  qed
  from 2 3 4 show ?thesis by blast
qed

theorem missing_external_loader_fails_witness:
  "truthy (external_loader loader_runner) \<and>
   get_stm32cubeclt_paths linux_host =
     Inr (''/opt/st/clt/STLink-gdb-server/bin/ST-LINK_gdbserver'',
          ''/opt/st/clt/STM32CubeProgrammer/bin'') \<and>
   \<not> path_exists linux_host
       (joinpath linux_host (joinpath linux_host ''/opt/st/clt/STM32CubeProgrammer/bin''
          ''ExternalLoader'') (the (external_loader loader_runner))) \<and>
   elf_file (cfg loader_runner) \<noteq> None \<and>
   spec_classify (get_start_address linux_host loader_runner) 
       (get_stm32_soc linux_host loader_runner)
     \<noteq> FlashChained \<and>
   do_attach_debug_debugserver linux_host loader_runner ''debugserver'' =
     Inl (RuntimeError ''External loader MX66.stldr does not exist'')"
proof -
  have t: "truthy (external_loader loader_runner)"
    by (simp add: runner_defs truthy_def)
  have p: "get_stm32cubeclt_paths linux_host =
     Inr (''/opt/st/clt/STLink-gdb-server/bin/ST-LINK_gdbserver'',
          ''/opt/st/clt/STM32CubeProgrammer/bin'')"
    by (simp add: get_stm32cubeclt_paths_def host_defs truthy_def)
  have x: "\<not> path_exists linux_host
       (joinpath linux_host (joinpath linux_host ''/opt/st/clt/STM32CubeProgrammer/bin''
          ''ExternalLoader'') (the (external_loader loader_runner)))"
    by (simp add: host_defs)
  have e: "elf_file (cfg loader_runner) \<noteq> None"
    by (simp add: runner_defs)
  have c: "spec_classify (get_start_address linux_host loader_runner) 
       (get_stm32_soc linux_host loader_runner)
     \<noteq> FlashChained"
    by (simp add: spec_classify_def host_defs runner_defs entry_defs)
  from missing_external_loader_fails [OF t p x, of "''debugserver''"] t p x e c
  show ?thesis
    by (simp add: runner_defs)
qed

text \<open>
  C8 as stated fails: an unreadable entry point does give the address 0, and 0 is in neither
  address window, but for the family STM32N6 the mode of 0 is FlashChained, the one mode
  that needs a further artifact. On a build without the bootloader image the run then
  stops with the error for that image.
\<close>

theorem unreadable_entry_n6_counterexample:
  "readelf n6_host ''/work/build/zephyr/zephyr.elf'' = None \<and>
   get_start_address n6_host sample_runner = 0 \<and>
   spec_classify (get_start_address n6_host sample_runner) (get_stm32_soc n6_host sample_runner) = FlashChained \<and>
   do_run n6_host sample_runner ''debug'' =
     Inl (RuntimeError (''MCUboot ELF not found. For --flash mode with sysbuild, '' @
                        ''MCUboot must be built (use --sysbuild flag)''))"
  by (simp add: run_defs host_defs runner_defs str_defs entry_defs spec_classify_def)

text \<open>
  C8, amended. When the entry point is unreadable the address defaults to 0. Unreadable
  covers every way the read can fail: there is no ELF file, the tool fails, its report has
  no entry-point line, or the first entry-point line has no colon or no hexadecimal number
  after it. The address 0 is never FSBL and never RAM, and classifying it raises nothing:
  its mode is Unknown for every family other than STM32N6 and FlashChained for STM32N6.
  Accordingly a command other than attach resets the target exactly when the family is
  not STM32N6.
\<close>

theorem unreadable_entry_point_defaults:
  "(entry_point_unreadable h self \<longrightarrow> get_start_address h self = 0) \<and>
   \<not> is_fsbl_mode 0 \<and> \<not> is_ram_mode 0 \<and>
   spec_classify 0 soc = (if soc = ''STM32N6'' then FlashChained else Unknown) \<and>
   (entry_point_unreadable h self \<and> command \<noteq> ''attach'' \<and>
    build_commands h self command = Inr (srv, gargs) \<longrightarrow>
      (''--initialize-reset'' \<in> set (server_flags srv) \<longleftrightarrow>
         get_stm32_soc h self \<noteq> ''STM32N6''))"
proof -
  have 1: "entry_point_unreadable h self \<longrightarrow> get_start_address h self = 0"
    by (simp add: unreadable_start_address)
  have 2: "\<not> is_fsbl_mode 0" "\<not> is_ram_mode 0"
    by (simp_all add: is_fsbl_mode_def is_ram_mode_def)
  have 3: "spec_classify 0 soc = (if soc = ''STM32N6'' then FlashChained else Unknown)"
    by (simp add: spec_classify_def)
  have 4: "''--initialize-reset'' \<in> set (server_flags srv) \<longleftrightarrow>
             get_stm32_soc h self \<noteq> ''STM32N6''"
    if u: "entry_point_unreadable h self" and c: "command \<noteq> ''attach''"
      and b: "build_commands h self command = Inr (srv, gargs)"
    using c 2 by (auto simp: server_flags_build [OF b] unreadable_start_address [OF u])
  from 1 2 3 4 show ?thesis by blast
qed

theorem unreadable_entry_point_defaults_witness:
  "entry_point_unreadable linux_host sample_runner \<and>
   get_start_address linux_host sample_runner = 0 \<and>
   entry_point_unreadable garbled_host sample_runner \<and>
   get_start_address garbled_host sample_runner = 0 \<and>
   entry_point_unreadable nocolon_host sample_runner \<and>
   get_start_address nocolon_host sample_runner = 0 \<and>
   spec_classify 0 ''unknown'' = Unknown \<and>
   ''debug'' \<noteq> ''attach'' \<and>
   build_commands linux_host sample_runner ''debug'' =
     Inr ([''/opt/st/clt/STLink-gdb-server/bin/ST-LINK_gdbserver'',
           ''--stm32cubeprogrammer-path'', ''/opt/st/clt/STM32CubeProgrammer/bin'',
           ''--port-number'', ''61234'', ''--apid'', ''0'', ''--halt'', ''--swd'',
           ''--initialize-reset''],
          [''-ex'', ''target remote :61234'', ''/work/build/zephyr/zephyr.elf'',
           ''-ex'', ''load /work/build/zephyr/zephyr.elf'']) \<and>
   get_stm32_soc linux_host sample_runner \<noteq> ''STM32N6''"
proof -
  have b: "build_commands linux_host sample_runner ''debug'' =
     Inr ([''/opt/st/clt/STLink-gdb-server/bin/ST-LINK_gdbserver'',
           ''--stm32cubeprogrammer-path'', ''/opt/st/clt/STM32CubeProgrammer/bin'',
           ''--port-number'', ''61234'', ''--apid'', ''0'', ''--halt'', ''--swd'',
           ''--initialize-reset''],
          [''-ex'', ''target remote :61234'', ''/work/build/zephyr/zephyr.elf'',
           ''-ex'', ''load /work/build/zephyr/zephyr.elf''])"
    by (simp add: run_defs host_defs runner_defs str_defs entry_defs)
  have u: "entry_point_unreadable linux_host sample_runner"
    "entry_point_unreadable garbled_host sample_runner"
    "entry_point_unreadable nocolon_host sample_runner"
    by (simp_all add: entry_point_unreadable_def host_defs runner_defs readelf_output_def
        strip_def is_space_def py_int16_def hex_body_ok_def is_hex_def)
  have s: "get_stm32_soc linux_host sample_runner \<noteq> ''STM32N6''"
    by (simp add: host_defs runner_defs entry_defs)
  show ?thesis
    using b u s
      unreadable_entry_point_defaults [where h = linux_host and self = sample_runner
        and soc = "''unknown''" and command = "''debug''"
        and srv = "[''/opt/st/clt/STLink-gdb-server/bin/ST-LINK_gdbserver'',
           ''--stm32cubeprogrammer-path'', ''/opt/st/clt/STM32CubeProgrammer/bin'',
           ''--port-number'', ''61234'', ''--apid'', ''0'', ''--halt'', ''--swd'',
           ''--initialize-reset'']"
        and gargs = "[''-ex'', ''target remote :61234'', ''/work/build/zephyr/zephyr.elf'',
           ''-ex'', ''load /work/build/zephyr/zephyr.elf'']"]
      unreadable_entry_point_defaults [where h = garbled_host and self = sample_runner]
      unreadable_entry_point_defaults [where h = nocolon_host and self = sample_runner]
    by simp
qed

text \<open>
  C9 as stated fails: started with \<^verbatim>\<open>--no-swd\<close>, the runner passes no target-interface
  flag at all. The port number, the access-point id and the halt flag are there.
\<close>

theorem interface_flag_counterexample:
  "\<not> swd jtag_runner \<and>
   server_cmd_of (do_run linux_host jtag_runner ''debug'') =
     [''/opt/st/clt/STLink-gdb-server/bin/ST-LINK_gdbserver'',
      ''--stm32cubeprogrammer-path'', ''/opt/st/clt/STM32CubeProgrammer/bin'',
      ''--port-number'', ''61234'', ''--apid'', ''0'', ''--halt'', ''--initialize-reset''] \<and>
   \<not> list_ex (contains_str ''swd'') (server_cmd_of (do_run linux_host jtag_runner ''debug'')) \<and>
   \<not> list_ex (contains_str ''jtag'') (server_cmd_of (do_run linux_host jtag_runner ''debug''))"
  by (simp add: run_defs host_defs runner_defs str_defs entry_defs server_cmd_of_def)

text \<open>
  C9, amended. For every mode and command, the server's argument list starts with the
  executable, the programmer path, the port number, the access-point id and the
  halt-on-connect flag; the flag \<^verbatim>\<open>--swd\<close> is among its flags exactly when SWD is selected,
  and nothing is passed for JTAG.
\<close>

theorem server_always_present_args:
  assumes "do_attach_debug_debugserver h self command = Inr act"
  shows "\<exists>gp cp.
           get_stm32cubeclt_paths h = Inr (gp, cp) \<and>
           take 8 (server_cmd_of (Inr act)) =
             [as_posix h gp, ''--stm32cubeprogrammer-path'', absolute h cp,
              ''--port-number'', str_int (gdb_port self),
              ''--apid'', str_int_opt (ap_id self), ''--halt''] \<and>
           take 4 (server_flags (server_cmd_of (Inr act))) =
             [''--stm32cubeprogrammer-path'', ''--port-number'', ''--apid'', ''--halt''] \<and>
           (''--swd'' \<in> set (server_flags (server_cmd_of (Inr act))) \<longleftrightarrow> swd self)"
proof -
  from do_attach_server [OF assms] obtain gargs where
    b: "build_commands h self command = Inr (server_cmd_of (Inr act), gargs)"
    by blast
  from b obtain gp cp where
    p: "get_stm32cubeclt_paths h = Inr (gp, cp)"
    and s: "server_cmd_of (Inr act) =
           [as_posix h gp, ''--stm32cubeprogrammer-path'', absolute h cp,
            ''--port-number'', str_int (gdb_port self),
            ''--apid'', str_int_opt (ap_id self), ''--halt''] @
           (if swd self then [''--swd''] else []) @
           [if command = ''attach'' \<or> (\<not> is_fsbl_mode (get_start_address h self) \<and>
                \<not> is_ram_mode (get_start_address h self) \<and> get_stm32_soc h self = ''STM32N6'')
            then ''--attach'' else ''--initialize-reset''] @
           (if truthy (stlink_serial self)
            then [''--serial-number'', the (stlink_serial self)] else []) @
           (if truthy (external_loader self)
            then (if do_external_init self then [''--external-init''] else []) @
                 [''--extload'', joinpath h (joinpath h cp ''ExternalLoader'')
                                   (the (external_loader self))]
            else [])"
    by (rule build_commands_server)
  have t: "take 8 (server_cmd_of (Inr act)) =
             [as_posix h gp, ''--stm32cubeprogrammer-path'', absolute h cp,
              ''--port-number'', str_int (gdb_port self),
              ''--apid'', str_int_opt (ap_id self), ''--halt'']"
    by (subst s) simp
  have f: "take 4 (server_flags (server_cmd_of (Inr act))) =
             [''--stm32cubeprogrammer-path'', ''--port-number'', ''--apid'', ''--halt'']"
    "''--swd'' \<in> set (server_flags (server_cmd_of (Inr act))) \<longleftrightarrow> swd self"
    by (simp_all add: server_flags_build [OF b])
  from p t f show ?thesis by blast
qed

theorem server_always_present_args_witness:
  "do_attach_debug_debugserver linux_host jtag_runner ''debug'' =
     Inr (RunServerAndClient
       [''/opt/st/clt/STLink-gdb-server/bin/ST-LINK_gdbserver'',
        ''--stm32cubeprogrammer-path'', ''/opt/st/clt/STM32CubeProgrammer/bin'',
        ''--port-number'', ''61234'', ''--apid'', ''0'', ''--halt'', ''--initialize-reset'']
       [''/usr/bin/gdb'', ''-ex'', ''target remote :61234'', ''/work/build/zephyr/zephyr.elf'',
        ''-ex'', ''load /work/build/zephyr/zephyr.elf'']) \<and>
   \<not> swd jtag_runner \<and>
   ''--swd'' \<notin> set (server_flags
       [''/opt/st/clt/STLink-gdb-server/bin/ST-LINK_gdbserver'',
        ''--stm32cubeprogrammer-path'', ''/opt/st/clt/STM32CubeProgrammer/bin'',
        ''--port-number'', ''61234'', ''--apid'', ''0'', ''--halt'', ''--initialize-reset''])"
proof -
  have r: "do_attach_debug_debugserver linux_host jtag_runner ''debug'' =
     Inr (RunServerAndClient
       [''/opt/st/clt/STLink-gdb-server/bin/ST-LINK_gdbserver'',
        ''--stm32cubeprogrammer-path'', ''/opt/st/clt/STM32CubeProgrammer/bin'',
        ''--port-number'', ''61234'', ''--apid'', ''0'', ''--halt'', ''--initialize-reset'']
       [''/usr/bin/gdb'', ''-ex'', ''target remote :61234'', ''/work/build/zephyr/zephyr.elf'',
        ''-ex'', ''load /work/build/zephyr/zephyr.elf''])"
    by (simp add: run_defs host_defs runner_defs str_defs entry_defs)
  have j: "\<not> swd jtag_runner"
    by (simp add: runner_defs)
  from server_always_present_args [OF r] r j show ?thesis
    by (auto simp: server_cmd_of_def)
qed

text \<open>
  C10. The options \<^verbatim>\<open>--two-boot-stage\<close> and \<^verbatim>\<open>--mcuboot-offset\<close> never influence what is
  built or started: two runners constructed from the same arguments except these two
  give the same server and client command lines and the same run, for every host and
  command. Equivalently, overwriting the two stored fields of a runner changes nothing.
\<close>

theorem boot_stage_options_unused:
  "build_commands h (init c s a ser p ext xi tb1 off1) command =
     build_commands h (init c s a ser p ext xi tb2 off2) command \<and>
   do_run h (init c s a ser p ext xi tb1 off1) command =
     do_run h (init c s a ser p ext xi tb2 off2) command \<and>
   build_commands h (self \<lparr> two_boot_stage := b, mcuboot_offset := m \<rparr>) command =
     build_commands h self command \<and>
   do_run h (self \<lparr> two_boot_stage := b, mcuboot_offset := m \<rparr>) command =
     do_run h self command"
proof -
  have 1: "build_commands h (init c s a ser p ext xi tb off) command =
           build_commands h (init c s a ser p ext xi False None) command" for tb off
    by (subst init_options) (rule unused_options_build)
  have 2: "do_attach_debug_debugserver h (init c s a ser p ext xi tb off) command =
           do_attach_debug_debugserver h (init c s a ser p ext xi False None) command" for tb off
    by (subst init_options) (rule unused_options_attach)
  show ?thesis
    by (simp add: do_run_def 1 [of tb1 off1] 1 [of tb2 off2] 2 [of tb1 off1] 2 [of tb2 off2]
        unused_options_build unused_options_attach)
qed

theorem boot_stage_options_unused_witness:
  "do_run chained_host
     (init (cfg sample_runner) True (Some 0) None 61234 None False True (Some ''0x08100000''))
     ''debug'' =
   do_run chained_host
     (init (cfg sample_runner) True (Some 0) None 61234 None False False None) ''debug'' \<and>
   mcuboot_offset
     (init (cfg sample_runner) True (Some 0) None 61234 None False True (Some ''0x08100000''))
     \<noteq> mcuboot_offset
     (init (cfg sample_runner) True (Some 0) None 61234 None False False None)"
  using boot_stage_options_unused [of chained_host "cfg sample_runner" True "Some 0" None 61234
      None False True "Some ''0x08100000''" "''debug''" False None]
  by (simp add: init_def)

end
